theory Spec2Isabelle
  imports Main "HOL-Library.Word" "HOL-Library.Multiset"
begin

unbundle bit_operations_syntax

section \<open>Values shared by the packages\<close>

text \<open>
  A Go \<^verbatim>\<open>error\<close> is observed by this program only through \<^verbatim>\<open>err.Error()\<close> (its message)
  and through the comparison with \<^verbatim>\<open>nil\<close>; \<open>error option\<close> is a possibly-nil error.
  Strings are byte strings, as in Go.
\<close>

datatype error = Err (Error: string)

text \<open>\<^verbatim>\<open>strings.HasPrefix\<close> and \<^verbatim>\<open>strings.Contains\<close>.\<close>

fun HasPrefix :: "string \<Rightarrow> string \<Rightarrow> bool" where
  "HasPrefix s [] = True"
| "HasPrefix [] (p # ps) = False"
| "HasPrefix (c # s) (p # ps) = (c = p \<and> HasPrefix s ps)"

fun Contains :: "string \<Rightarrow> string \<Rightarrow> bool" where
  "Contains [] substr = (substr = [])"
| "Contains (c # s) substr = (HasPrefix (c # s) substr \<or> Contains s substr)"

section \<open>JSON as exchanged with the graph store\<close>

text \<open>
  The byte slices handed to \<^verbatim>\<open>json.Unmarshal\<close> and produced by \<^verbatim>\<open>json.Marshal\<close> are
  modelled by the JSON text they hold: \<open>NotJson\<close> for bytes that are not one JSON value
  (a syntax error of the decoder), \<open>Json v\<close> for the value \<open>v\<close>. A number literal is
  \<open>JNumber n\<close> when it is an integer literal and \<open>JFloat\<close> (with its text) when it has a
  fraction or an exponent; a string is the byte string it denotes; an object keeps its
  members in order.
\<close>

datatype json =
    JNull
  | JBool bool
  | JNumber int
  | JFloat string
  | JString string
  | JArray "json list"
  | JObject "(string \<times> json) list"

datatype payload = NotJson | Json json

definition SyntaxError :: error where
  "SyntaxError = Err ''invalid character looking for beginning of value''"

definition UnmarshalTypeError :: error where
  "UnmarshalTypeError = Err ''json: cannot unmarshal value into Go struct field''"

text \<open>The decoder keeps the earliest error and goes on (\<^verbatim>\<open>saveError\<close>).\<close>

definition saveError :: "error option \<Rightarrow> error option \<Rightarrow> error option" where
  "saveError saved e = (case saved of None \<Rightarrow> e | Some x \<Rightarrow> Some x)"

text \<open>
  A member name selects a struct field when it equals the field's tag, or else when it
  equals it under the decoder's case folding: \<^verbatim>\<open>sb & caseMask\<close> clears bit 5 of an ASCII
  letter, and the Kelvin sign (E2 84 AA) and the long s (C5 BF) fold to k and s.
\<close>

definition caseMask :: "char \<Rightarrow> nat" where
  "caseMask c = (if (of_char c div 32) mod 2 = (1::nat) then of_char c - 32 else of_char c)"

fun equalFold :: "string \<Rightarrow> string \<Rightarrow> bool" where
  "equalFold [] t = (t = [])"
| "equalFold (sb # s) [] = False"
| "equalFold (sb # s) (tb # t) =
     (if of_char tb < (128::nat) then
        (if sb \<noteq> tb then
           (if 65 \<le> caseMask sb \<and> caseMask sb \<le> 90
            then caseMask sb = caseMask tb \<and> equalFold s t
            else False)
         else equalFold s t)
      else if sb = CHR ''s'' \<or> sb = CHR ''S'' then
        (case (tb # t) of
           a # b # t' \<Rightarrow> a = CHR 0xC5 \<and> b = CHR 0xBF \<and> equalFold s t'
         | _ \<Rightarrow> False)
      else if sb = CHR ''k'' \<or> sb = CHR ''K'' then
        (case (tb # t) of
           a # b # c # t' \<Rightarrow> a = CHR 0xE2 \<and> b = CHR 0x84 \<and> c = CHR 0xAA \<and> equalFold s t'
         | _ \<Rightarrow> False)
      else False)"

definition fieldNamed :: "string \<Rightarrow> string \<Rightarrow> bool" where
  "fieldNamed tag key = (key = tag \<or> equalFold tag key)"

text \<open>
  Decoding a JSON value into a Go value that already exists: \<^verbatim>\<open>null\<close> leaves a string or
  an integer as it is, a value of the wrong kind is skipped with an
  \<^verbatim>\<open>UnmarshalTypeError\<close>, an integer literal outside the 64-bit range too. Go's \<^verbatim>\<open>int\<close> is
  taken to be 64 bits wide.
\<close>

fun decodeString :: "json \<Rightarrow> string \<Rightarrow> string \<times> error option" where
  "decodeString (JString s) old = (s, None)"
| "decodeString JNull old = (old, None)"
| "decodeString v old = (old, Some UnmarshalTypeError)"

fun decodeInt64 :: "json \<Rightarrow> 64 word \<Rightarrow> 64 word \<times> error option" where
  "decodeInt64 (JNumber n) old =
     (if - (2 ^ 63) \<le> n \<and> n < 2 ^ 63 then (word_of_int n, None)
      else (old, Some UnmarshalTypeError))"
| "decodeInt64 JNull old = (old, None)"
| "decodeInt64 v old = (old, Some UnmarshalTypeError)"

subsection \<open>The edge-count response\<close>

text \<open>\<^verbatim>\<open>JsonPredicate\<close>: the one member \<^verbatim>\<open>matching\<close>, a Go \<^verbatim>\<open>int\<close>.\<close>

record JsonPredicate =
  Matching :: "64 word"

fun decodePredicateMembers ::
  "(string \<times> json) list \<Rightarrow> JsonPredicate \<Rightarrow> error option \<Rightarrow> JsonPredicate \<times> error option" where
  "decodePredicateMembers [] p saved = (p, saved)"
| "decodePredicateMembers ((k, v) # kvs) p saved =
     (if fieldNamed ''matching'' k then
        (case decodeInt64 v (Matching p) of
           (m, e) \<Rightarrow> decodePredicateMembers kvs (p\<lparr>Matching := m\<rparr>) (saveError saved e))
      else decodePredicateMembers kvs p saved)"

fun decodeJsonPredicate :: "json \<Rightarrow> error option \<Rightarrow> JsonPredicate \<times> error option" where
  "decodeJsonPredicate (JObject kvs) saved = decodePredicateMembers kvs \<lparr>Matching = 0\<rparr> saved"
| "decodeJsonPredicate JNull saved = (\<lparr>Matching = 0\<rparr>, saved)"
| "decodeJsonPredicate v saved = (\<lparr>Matching = 0\<rparr>, saveError saved (Some UnmarshalTypeError))"

fun decodePredicateElems ::
  "json list \<Rightarrow> error option \<Rightarrow> JsonPredicate list \<times> error option" where
  "decodePredicateElems [] saved = ([], saved)"
| "decodePredicateElems (v # vs) saved =
     (case decodeJsonPredicate v saved of
        (p, saved') \<Rightarrow>
          (case decodePredicateElems vs saved' of (ps, saved'') \<Rightarrow> (p # ps, saved'')))"

fun decodePredicateSlice ::
  "json \<Rightarrow> error option \<Rightarrow> JsonPredicate list \<times> error option" where
  "decodePredicateSlice (JArray vs) saved = decodePredicateElems vs saved"
| "decodePredicateSlice JNull saved = ([], saved)"
| "decodePredicateSlice v saved = ([], saveError saved (Some UnmarshalTypeError))"

text \<open>
  \<^verbatim>\<open>json.Unmarshal(pb, &jsonMap)\<close> for \<^verbatim>\<open>map[string][]JsonPredicate\<close>: every member of the
  top-level object is decoded into a fresh slice and stored under its name (a later member
  of the same name replaces an earlier one).
\<close>

fun decodePredicateMap ::
  "(string \<times> json) list \<Rightarrow> (string \<rightharpoonup> JsonPredicate list) \<Rightarrow> error option \<Rightarrow>
   (string \<rightharpoonup> JsonPredicate list) \<times> error option" where
  "decodePredicateMap [] m saved = (m, saved)"
| "decodePredicateMap ((k, v) # kvs) m saved =
     (case decodePredicateSlice v saved of
        (ps, saved') \<Rightarrow> decodePredicateMap kvs (m(k \<mapsto> ps)) saved')"

fun UnmarshalPredicates ::
  "payload \<Rightarrow> (string \<rightharpoonup> JsonPredicate list) \<times> error option" where
  "UnmarshalPredicates NotJson = (Map.empty, Some SyntaxError)"
| "UnmarshalPredicates (Json (JObject kvs)) = decodePredicateMap kvs Map.empty None"
| "UnmarshalPredicates (Json JNull) = (Map.empty, None)"
| "UnmarshalPredicates (Json v) = (Map.empty, Some UnmarshalTypeError)"

text \<open>Reading a key of a Go map: the zero value (the nil slice) when the key is absent.\<close>

definition mapIndex :: "(string \<rightharpoonup> 'a list) \<Rightarrow> string \<Rightarrow> 'a list" where
  "mapIndex m k = (case m k of None \<Rightarrow> [] | Some xs \<Rightarrow> xs)"

text \<open>\<^verbatim>\<open>DeserializePredicate\<close>: the pair \<^verbatim>\<open>(exists, err)\<close>.\<close>

definition DeserializePredicate :: "payload \<Rightarrow> bool \<times> error option" where
  "DeserializePredicate pb =
     (case UnmarshalPredicates pb of
        (jsonMap, Some e) \<Rightarrow> (False, Some e)
      | (jsonMap, None) \<Rightarrow>
          (case mapIndex jsonMap ''edges'' of
             e # es \<Rightarrow> (0 <s Matching e, None)
           | [] \<Rightarrow> (False, None)))"

section \<open>The graph store as seen by the client\<close>

text \<open>
  The store is a service outside the program. What it answers is given by a script: the
  \<open>n\<close>-th transaction the program opens gets the answers \<open>script n\<close> to its query, to its
  mutation and to its commit (each transaction of the program issues at most one of
  each). \<open>issued\<close> records, in order, the calls the program made on the client.
\<close>

record txn_script =
  queryResp :: "error + payload"
  mutateResp :: "error + (string \<times> string) list"
  commitResp :: "error option"

datatype query =
    NodeByUrl string int
  | EdgeCount string string

datatype store_event =
    EvNewTxn nat
  | EvQuery nat query
  | EvSetJson nat payload
  | EvSetEdge nat string string
  | EvCommit nat
  | EvDiscard nat

record Store =
  script :: "nat \<Rightarrow> txn_script"
  opened :: nat
  issued :: "store_event list"

text \<open>
  The client's transaction (\<^verbatim>\<open>dgo.Txn\<close>) remembers whether it has sent a mutation and
  whether it is finished. A finished transaction refuses queries, mutations and commits
  with \<^verbatim>\<open>ErrFinished\<close>; a mutation that the store rejects discards the transaction; and a
  commit of a transaction that never mutated succeeds without asking the store.
\<close>

record Txn =
  txnId :: nat
  mutated :: bool
  finished :: bool

definition ErrFinished :: error where
  "ErrFinished = Err ''Transaction has already been committed or discarded''"

definition NewTxn :: "'a Store_scheme \<Rightarrow> Txn \<times> 'a Store_scheme" where
  "NewTxn st =
     (\<lparr>txnId = opened st, mutated = False, finished = False\<rparr>,
      st\<lparr>opened := opened st + 1, issued := issued st @ [EvNewTxn (opened st)]\<rparr>)"

definition QueryWithVars ::
  "'a Store_scheme \<Rightarrow> Txn \<Rightarrow> query \<Rightarrow> (error + payload) \<times> 'a Store_scheme" where
  "QueryWithVars st txn q =
     ((if finished txn then Inl ErrFinished else queryResp (script st (txnId txn))),
      st\<lparr>issued := issued st @ [EvQuery (txnId txn) q]\<rparr>)"

text \<open>\<^verbatim>\<open>txn.Mutate\<close>, once the event of the call is recorded.\<close>

definition Mutate ::
  "'a Store_scheme \<Rightarrow> Txn \<Rightarrow> (error + (string \<times> string) list) \<times> Txn" where
  "Mutate st txn =
     (if finished txn then (Inl ErrFinished, txn)
      else
        (case mutateResp (script st (txnId txn)) of
           Inl e \<Rightarrow> (Inl e, txn\<lparr>mutated := True, finished := True\<rparr>)
         | Inr assigned \<Rightarrow> (Inr assigned, txn\<lparr>mutated := True\<rparr>)))"

definition MutateEdge ::
  "'a Store_scheme \<Rightarrow> Txn \<Rightarrow> string \<Rightarrow> string \<Rightarrow>
   (error + (string \<times> string) list) \<times> Txn \<times> 'a Store_scheme" where
  "MutateEdge st txn subject object =
     (case Mutate st txn of
        (r, txn') \<Rightarrow> (r, txn', st\<lparr>issued := issued st @ [EvSetEdge (txnId txn) subject object]\<rparr>))"

definition MutateJson ::
  "'a Store_scheme \<Rightarrow> Txn \<Rightarrow> payload \<Rightarrow>
   (error + (string \<times> string) list) \<times> Txn \<times> 'a Store_scheme" where
  "MutateJson st txn p =
     (case Mutate st txn of
        (r, txn') \<Rightarrow> (r, txn', st\<lparr>issued := issued st @ [EvSetJson (txnId txn) p]\<rparr>))"

definition Commit :: "'a Store_scheme \<Rightarrow> Txn \<Rightarrow> error option \<times> Txn \<times> 'a Store_scheme" where
  "Commit st txn =
     ((if finished txn then Some ErrFinished
       else if \<not> mutated txn then None
       else commitResp (script st (txnId txn))),
      txn\<lparr>finished := True\<rparr>,
      st\<lparr>issued := issued st @ [EvCommit (txnId txn)]\<rparr>)"

text \<open>\<^verbatim>\<open>txn.Discard\<close>; the program drops its result and does not use the transaction again.\<close>

definition Discard :: "'a Store_scheme \<Rightarrow> Txn \<Rightarrow> 'a Store_scheme" where
  "Discard st txn = st\<lparr>issued := issued st @ [EvDiscard (txnId txn)]\<rparr>"

subsection \<open>Edges\<close>

definition CheckPredicate ::
  "'a Store_scheme \<Rightarrow> Txn \<Rightarrow> string \<Rightarrow> string \<Rightarrow> (bool \<times> error option) \<times> 'a Store_scheme" where
  "CheckPredicate st txn parentUid childUid =
     (case QueryWithVars st txn (EdgeCount parentUid childUid) of
        (Inl e, st') \<Rightarrow> ((False, Some e), st')
      | (Inr resp, st') \<Rightarrow> (DeserializePredicate resp, st'))"

text \<open>
  \<^verbatim>\<open>CheckOrCreatePredicate\<close>: the loop \<^verbatim>\<open>for !exists && attempts > 0\<close>, with the loop
  variables as arguments; \<open>err\<close> is the named result. The value of \<^verbatim>\<open>txn.Commit\<close> is dropped,
  as in the source.
\<close>

function CheckOrCreatePredicate_loop ::
  "'a Store_scheme \<Rightarrow> string \<Rightarrow> string \<Rightarrow> int \<Rightarrow> bool \<Rightarrow> error option \<Rightarrow>
   error option \<times> 'a Store_scheme" where
  "CheckOrCreatePredicate_loop st parentUid childUid attempts exists err =
     (if \<not> exists \<and> attempts > 0 then
        (case NewTxn st of
           (txn, st1) \<Rightarrow>
             (case CheckPredicate st1 txn parentUid childUid of
                ((exists', Some e), st2) \<Rightarrow> (Some e, st2)
              | ((exists', None), st2) \<Rightarrow>
                  (if \<not> exists' then
                     (case MutateEdge st2 txn parentUid childUid of
                        (r, txn', st3) \<Rightarrow>
                          (let err' = (case r of Inl e \<Rightarrow> Some e | Inr a \<Rightarrow> None) in
                           if err' \<noteq> None \<and> attempts - 1 \<le> 0 then (err', Discard st3 txn')
                           else
                             (case Commit st3 txn' of
                                (dropped, txn'', st4) \<Rightarrow>
                                  CheckOrCreatePredicate_loop (Discard st4 txn'')
                                    parentUid childUid (attempts - 1) exists' err')))
                   else CheckOrCreatePredicate_loop st2 parentUid childUid (attempts - 1) exists' None)))
      else (err, st))"
  by pat_completeness auto
termination
  by (relation "measure (\<lambda>(st, p, c, attempts, exists, err). nat attempts)") auto

declare CheckOrCreatePredicate_loop.simps [simp del]

definition CheckOrCreatePredicate ::
  "'a Store_scheme \<Rightarrow> string \<Rightarrow> string \<Rightarrow> error option \<times> 'a Store_scheme" where
  "CheckOrCreatePredicate st parentUid childUid =
     CheckOrCreatePredicate_loop st parentUid childUid 10 False None"

text \<open>
  A store in which no edge is ever seen, every edge mutation is accepted and every commit
  is rejected with a transaction conflict; and the calls one attempt of
  \<^verbatim>\<open>CheckOrCreatePredicate\<close> issues against it.
\<close>

definition conflicting_commits :: "nat \<Rightarrow> txn_script" where
  "conflicting_commits n =
     \<lparr>queryResp = Inr (Json (JObject [(''edges'', JArray [JObject [(''matching'', JNumber 0)]])])),
      mutateResp = Inr [],
      commitResp = Some (Err ''Transaction has been aborted. Please retry.'')\<rparr>"

definition attempt_events :: "string \<Rightarrow> string \<Rightarrow> nat \<Rightarrow> store_event list" where
  "attempt_events p c n =
     [EvNewTxn n, EvQuery n (EdgeCount p c), EvSetEdge n p c, EvCommit n, EvDiscard n]"

section \<open>Pages and the graph codec\<close>

text \<open>
  \<^verbatim>\<open>page.Page\<close>, with the fields the two packages use. Pages are shared through pointers
  (\<^verbatim>\<open>Parent *Page\<close>, \<^verbatim>\<open>Children []*Page\<close>), so they live in a heap: a page's address is
  its index in the list of all pages allocated so far, and a nil pointer is \<open>None\<close>.
  \<^verbatim>\<open>Depth\<close> is a Go \<^verbatim>\<open>int\<close>, \<^verbatim>\<open>Timestamp\<close> an \<^verbatim>\<open>int64\<close>.
\<close>

type_synonym addr = nat

record Page =
  Uid :: string
  Url :: string
  Children :: "addr list"
  Parent :: "addr option"
  Depth :: "64 word"
  Timestamp :: "64 word"
  Body :: string

type_synonym heap = "Page list"

text \<open>
  \<^verbatim>\<open>JsonPage\<close>, the node as it travels; \<^verbatim>\<open>Children []*JsonPage\<close> may hold nil pointers.
  A Go slice is a window on an array: \<open>JChildren\<close> holds the elements of the slice (up to
  its length), \<open>JSpare\<close> the elements of the array behind them (from the length up to the
  capacity). Nothing but the decoder, when it lengthens a slice, ever looks at the latter.
\<close>

datatype JsonPage =
  JsonPage (JUid: string) (JUrl: string) (JTimestamp: "64 word")
    (JChildren: "JsonPage option list") (JSpare: "JsonPage option list")

subsection \<open>Strings in the encoder\<close>

text \<open>
  \<^verbatim>\<open>json.Marshal\<close> writes a string coerced to valid UTF-8: every byte that does not start
  a well-formed encoding is written as U+FFFD (EF BF BD). \<open>runeLen\<close> is the length of the
  well-formed encoding at the head of a string, 0 when there is none
  (\<^verbatim>\<open>utf8.DecodeRuneInString\<close> returning \<^verbatim>\<open>RuneError\<close> with size 1).
\<close>

definition inRange :: "nat \<Rightarrow> nat \<Rightarrow> char \<Rightarrow> bool" where
  "inRange lo hi c = (lo \<le> of_char c \<and> of_char c \<le> hi)"

fun runeLen :: "string \<Rightarrow> nat" where
  "runeLen [] = 0"
| "runeLen (a # s) =
     (if of_char a < (0x80::nat) then 1
      else if inRange 0xC2 0xDF a then
        (case s of b # t \<Rightarrow> if inRange 0x80 0xBF b then 2 else 0 | _ \<Rightarrow> 0)
      else if inRange 0xE0 0xEF a then
        (case s of
           b # c # t \<Rightarrow>
             if inRange (if a = CHR 0xE0 then 0xA0 else 0x80) (if a = CHR 0xED then 0x9F else 0xBF) b
                \<and> inRange 0x80 0xBF c
             then 3 else 0
         | _ \<Rightarrow> 0)
      else if inRange 0xF0 0xF4 a then
        (case s of
           b # c # d # t \<Rightarrow>
             if inRange (if a = CHR 0xF0 then 0x90 else 0x80) (if a = CHR 0xF4 then 0x8F else 0xBF) b
                \<and> inRange 0x80 0xBF c \<and> inRange 0x80 0xBF d
             then 4 else 0
         | _ \<Rightarrow> 0)
      else 0)"

fun coerceUTF8 :: "string \<Rightarrow> string" where
  "coerceUTF8 [] = []"
| "coerceUTF8 (a # s) =
     (case runeLen (a # s) of
        0 \<Rightarrow> [CHR 0xEF, CHR 0xBF, CHR 0xBD] @ coerceUTF8 s
      | Suc k \<Rightarrow> a # take k s @ coerceUTF8 (drop k s))"

text \<open>\<^verbatim>\<open>utf8.ValidString\<close>.\<close>

fun ValidString :: "string \<Rightarrow> bool" where
  "ValidString [] = True"
| "ValidString (a # s) =
     (case runeLen (a # s) of
        0 \<Rightarrow> False
      | Suc k \<Rightarrow> ValidString (drop k s))"

subsection \<open>Encoding a node\<close>

text \<open>
  \<^verbatim>\<open>json.Marshal\<close> of a \<^verbatim>\<open>JsonPage\<close>: the members in the order of the fields, each left out
  when its field is empty (\<^verbatim>\<open>omitempty\<close>: the empty string, 0, a slice of length 0).
  A nil pointer among the children is written as \<^verbatim>\<open>null\<close>.
\<close>

fun MarshalJsonPage :: "JsonPage \<Rightarrow> json" where
  "MarshalJsonPage (JsonPage uid url ts kids spare) =
     JObject
       ((if uid = [] then [] else [(''uid'', JString (coerceUTF8 uid))]) @
        (if url = [] then [] else [(''url'', JString (coerceUTF8 url))]) @
        (if ts = 0 then [] else [(''timestamp'', JNumber (sint ts))]) @
        (if kids = [] then []
         else [(''links'',
                JArray (map (\<lambda>k. case k of None \<Rightarrow> JNull | Some c \<Rightarrow> MarshalJsonPage c) kids))]))"

definition ConvertToJsonPage :: "Page \<Rightarrow> JsonPage" where
  "ConvertToJsonPage currentPage =
     JsonPage [] (Url currentPage) (Timestamp currentPage) [] []"

text \<open>
  \<^verbatim>\<open>SerializePage\<close>: the pair \<^verbatim>\<open>(pb, err)\<close>. \<^verbatim>\<open>json.Marshal\<close> has no error for this type,
  so \<open>err\<close> is always \<^verbatim>\<open>nil\<close>.
\<close>

definition SerializePage :: "Page \<Rightarrow> payload \<times> error option" where
  "SerializePage currentPage = (Json (MarshalJsonPage (ConvertToJsonPage currentPage)), None)"

subsection \<open>Decoding a query response\<close>

text \<open>
  Decoding into a \<^verbatim>\<open>JsonPage\<close> that exists already (the zero value, or what an earlier
  member of the same name left behind). The elements of a \<^verbatim>\<open>links\<close> array are decoded
  into the slots of the array behind the slice, one after the other from the first:
  \<open>i\<close> is the index of the next slot and \<open>back\<close> holds the slots from \<open>i\<close> up to the
  capacity. When they are used up the decoder moves the \<open>i\<close> elements decoded so far
  to a new array of capacity \<open>growCap i\<close>, whose other slots are nil. An element that
  is \<^verbatim>\<open>null\<close> makes its slot nil; any other element is decoded into the page the slot
  points to, or into a new zero page. At the end the slice is cut to the length of the
  array, and the slots not reached stay behind it; an empty array gives a new empty slice.
\<close>

definition zeroJsonPage :: JsonPage where
  "zeroJsonPage = JsonPage [] [] 0 [] []"

definition growCap :: "nat \<Rightarrow> nat" where
  "growCap cap = (if cap + cap div 2 < 4 then 4 else cap + cap div 2)"

function decodeJsonPage :: "json \<Rightarrow> JsonPage \<Rightarrow> error option \<Rightarrow> JsonPage \<times> error option"
  and decodePageMembers ::
    "(string \<times> json) list \<Rightarrow> JsonPage \<Rightarrow> error option \<Rightarrow> JsonPage \<times> error option"
  and decodeLinks ::
    "json list \<Rightarrow> nat \<Rightarrow> JsonPage option list \<Rightarrow> error option \<Rightarrow>
     JsonPage option list \<times> JsonPage option list \<times> error option"
where
  "decodeJsonPage v old saved =
     (case v of
        JObject kvs \<Rightarrow> decodePageMembers kvs old saved
      | JNull \<Rightarrow> (old, saved)
      | _ \<Rightarrow> (old, saveError saved (Some UnmarshalTypeError)))"
| "decodePageMembers [] p saved = (p, saved)"
| "decodePageMembers ((k, v) # kvs) p saved =
     (if fieldNamed ''uid'' k then
        (case decodeString v (JUid p) of
           (s, e) \<Rightarrow>
             decodePageMembers kvs (JsonPage s (JUrl p) (JTimestamp p) (JChildren p) (JSpare p))
               (saveError saved e))
      else if fieldNamed ''url'' k then
        (case decodeString v (JUrl p) of
           (s, e) \<Rightarrow>
             decodePageMembers kvs (JsonPage (JUid p) s (JTimestamp p) (JChildren p) (JSpare p))
               (saveError saved e))
      else if fieldNamed ''timestamp'' k then
        (case decodeInt64 v (JTimestamp p) of
           (t, e) \<Rightarrow>
             decodePageMembers kvs (JsonPage (JUid p) (JUrl p) t (JChildren p) (JSpare p))
               (saveError saved e))
      else if fieldNamed ''links'' k then
        (case v of
           JArray vs \<Rightarrow>
             (case decodeLinks vs 0 (JChildren p @ JSpare p) saved of
                (cs, back, saved') \<Rightarrow>
                  decodePageMembers kvs
                    (JsonPage (JUid p) (JUrl p) (JTimestamp p) cs (if vs = [] then [] else back))
                    saved')
         | JNull \<Rightarrow>
             decodePageMembers kvs (JsonPage (JUid p) (JUrl p) (JTimestamp p) [] []) saved
         | _ \<Rightarrow> decodePageMembers kvs p (saveError saved (Some UnmarshalTypeError)))
      else decodePageMembers kvs p saved)"
| "decodeLinks [] i back saved = ([], back, saved)"
| "decodeLinks (v # vs) i back saved =
     (case (case back of
              [] \<Rightarrow> (None, replicate (growCap i - (i + 1)) None)
            | slot # back' \<Rightarrow> (slot, back')) of
        (slot, back') \<Rightarrow>
          (case (if v = JNull then (None, saved)
                 else (case decodeJsonPage v
                              (case slot of Some p \<Rightarrow> p | None \<Rightarrow> zeroJsonPage) saved of
                         (c, saved') \<Rightarrow> (Some c, saved'))) of
             (c, saved') \<Rightarrow>
               (case decodeLinks vs (i + 1) back' saved' of
                  (cs, rest, saved'') \<Rightarrow> (c # cs, rest, saved''))))"
  by pat_completeness auto
termination
  by (relation "measure (\<lambda>x. case x of
         Inl (v, old, saved) \<Rightarrow> 2 * size v
       | Inr (Inl (kvs, p, saved)) \<Rightarrow> 2 * size_list (size_prod (\<lambda>k. 0) size) kvs + 1
       | Inr (Inr (vs, i, back, saved)) \<Rightarrow> 2 * size_list size vs + 1)") auto

fun decodePageElems :: "json list \<Rightarrow> error option \<Rightarrow> JsonPage list \<times> error option" where
  "decodePageElems [] saved = ([], saved)"
| "decodePageElems (v # vs) saved =
     (case decodeJsonPage v zeroJsonPage saved of
        (p, saved') \<Rightarrow>
          (case decodePageElems vs saved' of (ps, saved'') \<Rightarrow> (p # ps, saved'')))"

fun decodePageSlice :: "json \<Rightarrow> error option \<Rightarrow> JsonPage list \<times> error option" where
  "decodePageSlice (JArray vs) saved = decodePageElems vs saved"
| "decodePageSlice JNull saved = ([], saved)"
| "decodePageSlice v saved = ([], saveError saved (Some UnmarshalTypeError))"

text \<open>\<^verbatim>\<open>json.Unmarshal(pb, &jsonMap)\<close> for \<^verbatim>\<open>map[string][]JsonPage\<close>.\<close>

fun decodePageMap ::
  "(string \<times> json) list \<Rightarrow> (string \<rightharpoonup> JsonPage list) \<Rightarrow> error option \<Rightarrow>
   (string \<rightharpoonup> JsonPage list) \<times> error option" where
  "decodePageMap [] m saved = (m, saved)"
| "decodePageMap ((k, v) # kvs) m saved =
     (case decodePageSlice v saved of
        (ps, saved') \<Rightarrow> decodePageMap kvs (m(k \<mapsto> ps)) saved')"

fun UnmarshalPages :: "payload \<Rightarrow> (string \<rightharpoonup> JsonPage list) \<times> error option" where
  "UnmarshalPages NotJson = (Map.empty, Some SyntaxError)"
| "UnmarshalPages (Json (JObject kvs)) = decodePageMap kvs Map.empty None"
| "UnmarshalPages (Json JNull) = (Map.empty, None)"
| "UnmarshalPages (Json v) = (Map.empty, Some UnmarshalTypeError)"

subsection \<open>Rebuilding the page tree\<close>

text \<open>
  \<^verbatim>\<open>ConvertToPage\<close> allocates the page, starts one goroutine per child and appends the
  converted children in the order in which they arrive on the channel. That order is the
  scheduler's choice. It is given by \<open>sched\<close>: at the page with address \<open>a\<close>, the child
  that has \<open>k\<close> later siblings arrives at position \<open>sched a k\<close> among them (\<open>arrive\<close>
  inserts the children from the last to the first); every order of arrival is of this
  form, at every page independently. The conversions of different children share
  nothing but the allocator, so the model runs them one after the other. A nil child makes
  its goroutine dereference a nil pointer; the panic ends the program, and the result is
  \<open>None\<close>.
\<close>

definition insertAt :: "nat \<Rightarrow> 'a \<Rightarrow> 'a list \<Rightarrow> 'a list" where
  "insertAt n x xs = take n xs @ x # drop n xs"

fun arrive :: "(nat \<Rightarrow> nat) \<Rightarrow> 'a list \<Rightarrow> 'a list" where
  "arrive pos [] = []"
| "arrive pos (x # xs) = insertAt (pos (length xs)) x (arrive pos xs)"

function ConvertToPage ::
    "(addr \<Rightarrow> nat \<Rightarrow> nat) \<Rightarrow> heap \<Rightarrow> addr option \<Rightarrow> JsonPage \<Rightarrow> (addr \<times> heap) option"
  and convertChildren ::
    "(addr \<Rightarrow> nat \<Rightarrow> nat) \<Rightarrow> heap \<Rightarrow> addr \<Rightarrow> JsonPage option list \<Rightarrow> (addr list \<times> heap) option"
where
  "ConvertToPage sched h parentPage (JsonPage uid url ts kids spare) =
     (case convertChildren sched
             (h @ [\<lparr>Uid = uid, Url = url, Children = [], Parent = parentPage,
                     Depth = 0, Timestamp = ts, Body = []\<rparr>])
             (length h) kids of
        None \<Rightarrow> None
      | Some (childPages, h') \<Rightarrow>
          Some (length h,
                h'[length h := (h' ! length h)\<lparr>Children := arrive (sched (length h)) childPages\<rparr>]))"
| "convertChildren sched h currentPage [] = Some ([], h)"
| "convertChildren sched h currentPage (None # rest) = None"
| "convertChildren sched h currentPage (Some childJsonPage # rest) =
     (case ConvertToPage sched h (Some currentPage) childJsonPage of
        None \<Rightarrow> None
      | Some (childPage, h') \<Rightarrow>
          (case convertChildren sched h' currentPage rest of
             None \<Rightarrow> None
           | Some (childPages, h'') \<Rightarrow> Some (childPage # childPages, h'')))"
  by pat_completeness auto
termination
  by (relation "measure (\<lambda>x. case x of
         Inl (sched, h, parentPage, jsonPage) \<Rightarrow> 2 * size jsonPage
       | Inr (sched, h, currentPage, kids) \<Rightarrow> 2 * size_list (size_option size) kids + 1)")
     auto

text \<open>\<^verbatim>\<open>DeserializePage\<close>: the pair \<^verbatim>\<open>(currentPage, err)\<close> and the heap after the call.\<close>

definition DeserializePage ::
  "(addr \<Rightarrow> nat \<Rightarrow> nat) \<Rightarrow> heap \<Rightarrow> payload \<Rightarrow> ((addr option \<times> error option) \<times> heap) option" where
  "DeserializePage sched h pb =
     (case UnmarshalPages pb of
        (jsonMap, err) \<Rightarrow>
          (case mapIndex jsonMap ''result'' of
             jsonPage # rest \<Rightarrow>
               (case ConvertToPage sched h None jsonPage of
                  None \<Rightarrow> None
                | Some (currentPage, h') \<Rightarrow> Some ((Some currentPage, err), h'))
           | [] \<Rightarrow> Some ((None, err), h)))"

subsection \<open>Reading a rebuilt tree\<close>

text \<open>
  The pages below a page, generation by generation (the page itself, its children, their
  children, ...): \<open>descend\<close> follows the \<^verbatim>\<open>Children\<close> pointers for at most \<open>n\<close> generations
  and stops at the first empty one. A tree inside a heap of \<open>length h\<close> pages has at most
  \<open>length h\<close> generations.
\<close>

fun descend :: "heap \<Rightarrow> nat \<Rightarrow> addr list \<Rightarrow> addr list list" where
  "descend h 0 as = []"
| "descend h (Suc n) as =
     (if as = [] then [] else as # descend h n (concat (map (\<lambda>c. Children (h ! c)) as)))"

definition generations :: "heap \<Rightarrow> addr \<Rightarrow> addr list list" where
  "generations h a = descend h (length h) [a]"

definition treeSize :: "heap \<Rightarrow> addr \<Rightarrow> nat" where
  "treeSize h a = length (concat (generations h a))"

definition treeDepth :: "heap \<Rightarrow> addr \<Rightarrow> nat" where
  "treeDepth h a = length (generations h a) - 1"

text \<open>The size of the tree a conversion returned (0 when it panicked).\<close>

definition reconstructedSize :: "(addr \<times> heap) option \<Rightarrow> nat" where
  "reconstructedSize r = (case r of None \<Rightarrow> 0 | Some (a, h) \<Rightarrow> treeSize h a)"

text \<open>
  A flattened query result: a root with two children, the first of which has one child.
\<close>

definition flattened :: JsonPage where
  "flattened =
     JsonPage ''0x1'' ''http://example.edu'' 1
       [Some (JsonPage ''0x2'' ''http://example.edu/a'' 2
                [Some (JsonPage ''0x3'' ''http://example.edu/a/b'' 3 [] [])] []),
        Some (JsonPage ''0x4'' ''http://example.edu/c'' 4 [] [])] []"

text \<open>The schedule in which every child arrives in the order of the response.\<close>

definition inOrder :: "addr \<Rightarrow> nat \<Rightarrow> nat" where
  "inOrder a k = 0"

text \<open>
  The query response that holds one node and nothing else: \<^verbatim>\<open>{"result":[node]}\<close>.
\<close>

definition singleNodeResponse :: "payload \<Rightarrow> payload" where
  "singleNodeResponse pb =
     (case pb of Json node \<Rightarrow> Json (JObject [(''result'', JArray [node])]) | NotJson \<Rightarrow> NotJson)"

text \<open>The members of an encoded node, and their names.\<close>

fun members :: "payload \<Rightarrow> (string \<times> json) list" where
  "members (Json (JObject kvs)) = kvs"
| "members pb = []"

definition memberNames :: "payload \<Rightarrow> string list" where
  "memberNames pb = map fst (members pb)"

text \<open>A page as it is after it was persisted: it has the uid the store gave it.\<close>

definition persistedPage :: Page where
  "persistedPage =
     \<lparr>Uid = ''0x1'', Url = ''http://example.edu'', Children = [], Parent = None, Depth = 0,
      Timestamp = 1, Body = []\<rparr>"

section \<open>Nodes: find or create\<close>

text \<open>
  The state a call of the store's methods works on: the store as above, the heap of
  pages, what was written to standard output (\<^verbatim>\<open>fmt.Print\<close>) and what was logged
  (\<^verbatim>\<open>log.Printf\<close>, the message without the logger's time stamp).
\<close>

record World = Store +
  heap :: heap
  stdout :: "string list"
  logged :: "string list"

definition Print :: "World \<Rightarrow> error \<Rightarrow> World" where
  "Print w e = w\<lparr>stdout := stdout w @ [Error e]\<rparr>"

definition Printf :: "World \<Rightarrow> string \<Rightarrow> World" where
  "Printf w line = w\<lparr>logged := logged w @ [line]\<rparr>"

text \<open>
  \<^verbatim>\<open>FindNode\<close>: the query asks for the node with the given url, to the depth \<open>depth + 1\<close>;
  the result is the pair \<^verbatim>\<open>(currentPage, err)\<close>, or \<open>None\<close> when the conversion panicked.
\<close>

definition FindNode ::
  "(addr \<Rightarrow> nat \<Rightarrow> nat) \<Rightarrow> World \<Rightarrow> Txn \<Rightarrow> string \<Rightarrow> int \<Rightarrow>
   ((addr option \<times> error option) \<times> World) option" where
  "FindNode sched w txn url depth =
     (case QueryWithVars w txn (NodeByUrl url (depth + 1)) of
        (Inl e, w') \<Rightarrow> Some ((None, Some e), Print w' e)
      | (Inr resp, w') \<Rightarrow>
          (case DeserializePage sched (heap w') resp of
             None \<Rightarrow> None
           | Some (r, h') \<Rightarrow> Some (r, w'\<lparr>heap := h'\<rparr>)))"

text \<open>Reading a key of the map of assigned uids: the empty string when it is absent.\<close>

definition assignedUid :: "(string \<times> string) list \<Rightarrow> string \<Rightarrow> string" where
  "assignedUid uids k = (case map_of uids k of None \<Rightarrow> [] | Some u \<Rightarrow> u)"

text \<open>
  One pass through the body of the loop of \<^verbatim>\<open>FindOrCreateNode\<close>. It ends either in a
  \<^verbatim>\<open>return\<close> (\<open>Return\<close>) or at the end of the body (\<open>Next\<close>), in both cases with the values
  of the named results \<^verbatim>\<open>uid\<close> and \<^verbatim>\<open>err\<close>. After the commit nothing looks at \<^verbatim>\<open>err\<close>
  but the test \<^verbatim>\<open>uid == "" && err == nil\<close>.
\<close>

datatype 'a outcome = Return 'a | Next 'a

definition FindOrCreateNode_commit ::
  "World \<Rightarrow> Txn \<Rightarrow> addr \<Rightarrow> string \<Rightarrow> (string \<times> string) list \<Rightarrow>
   (string \<times> error option) outcome \<times> World" where
  "FindOrCreateNode_commit w txn currentPage uid assigned =
     (case Commit w txn of
        (err, txn', w1) \<Rightarrow>
          (let w2 = Discard w1 txn';
               uid' = (if uid = [] \<and> err = None then assignedUid assigned ''blank-0'' else uid);
               w3 = (if uid' \<noteq> []
                     then w2\<lparr>heap := (heap w2)[currentPage := (heap w2 ! currentPage)\<lparr>Uid := uid'\<rparr>]\<rparr>
                     else w2)
           in (Next (uid', err), w3)))"

definition FindOrCreateNode_body ::
  "(addr \<Rightarrow> nat \<Rightarrow> nat) \<Rightarrow> World \<Rightarrow> addr \<Rightarrow> string \<Rightarrow>
   ((string \<times> error option) outcome \<times> World) option" where
  "FindOrCreateNode_body sched w currentPage uid =
     (case NewTxn w of
        (txn, w1) \<Rightarrow>
          (case FindNode sched w1 txn (Url (heap w1 ! currentPage)) 0 of
             None \<Rightarrow> None
           | Some ((resultPage, Some e), w2) \<Rightarrow> Some (Return (uid, Some e), w2)
           | Some ((resultPage, None), w2) \<Rightarrow>
               (let uid' = (case resultPage of Some r \<Rightarrow> Uid (heap w2 ! r) | None \<Rightarrow> uid) in
                if uid' = [] then
                  (case SerializePage (heap w2 ! currentPage) of
                     (p, Some e) \<Rightarrow> Some (Return (uid', Some e), Print w2 e)
                   | (p, None) \<Rightarrow>
                       (case MutateJson w2 txn p of
                          (Inl e, txn', w3) \<Rightarrow> Some (Return (uid', Some e), w3)
                        | (Inr assigned, txn', w3) \<Rightarrow>
                            Some (FindOrCreateNode_commit w3 txn' currentPage uid' assigned)))
                else Some (FindOrCreateNode_commit w2 txn currentPage uid' []))))"

text \<open>
  \<^verbatim>\<open>FindOrCreateNode\<close>: the loop \<^verbatim>\<open>for uid == ""\<close>. The source gives no bound, so the loop
  is a partial function: \<open>None\<close> is a call that does not return (it runs forever, or it
  panicked).
\<close>

partial_function (option) FindOrCreateNode_loop ::
  "(addr \<Rightarrow> nat \<Rightarrow> nat) \<Rightarrow> World \<Rightarrow> addr \<Rightarrow> string \<Rightarrow> error option \<Rightarrow>
   ((string \<times> error option) \<times> World) option" where
  "FindOrCreateNode_loop sched w currentPage uid err =
     (if uid = [] then
        (case FindOrCreateNode_body sched w currentPage uid of
           None \<Rightarrow> None
         | Some (Return r, w') \<Rightarrow> Some (r, w')
         | Some (Next (uid', err'), w') \<Rightarrow> FindOrCreateNode_loop sched w' currentPage uid' err')
      else Some ((uid, err), w))"

definition FindOrCreateNode ::
  "(addr \<Rightarrow> nat \<Rightarrow> nat) \<Rightarrow> World \<Rightarrow> addr \<Rightarrow> ((string \<times> error option) \<times> World) option" where
  "FindOrCreateNode sched w currentPage = FindOrCreateNode_loop sched w currentPage [] None"

subsection \<open>Create\<close>

text \<open>
  \<^verbatim>\<open>Create\<close>, with \<^verbatim>\<open>err\<close> the named result. When the edge could not be created the error
  is logged; the test on its message guards a \<^verbatim>\<open>return\<close>, and the statement after the test
  is the final \<^verbatim>\<open>return\<close>: both return \<^verbatim>\<open>err\<close> as it stands.
\<close>

definition TransactionAborted :: string where
  "TransactionAborted = ''Transaction has been aborted. Please retry.''"

definition TransactionTooOld :: string where
  "TransactionTooOld = ''Transaction is too old''"

definition Create ::
  "(addr \<Rightarrow> nat \<Rightarrow> nat) \<Rightarrow> World \<Rightarrow> addr \<Rightarrow> (error option \<times> World) option" where
  "Create sched w currentPage =
     (case FindOrCreateNode sched w currentPage of
        None \<Rightarrow> None
      | Some ((currentUid, Some e), w1) \<Rightarrow>
          Some (Some e,
                Printf w1 (''[ERROR] context: create current page ('' @ Url (heap w1 ! currentPage)
                           @ '') - message: '' @ Error e @ [CHR 0x0A]))
      | Some ((currentUid, None), w1) \<Rightarrow>
          (case Parent (heap w1 ! currentPage) of
             None \<Rightarrow> Some (None, w1)
           | Some parent \<Rightarrow>
               (case FindOrCreateNode sched w1 parent of
                  None \<Rightarrow> None
                | Some ((parentUid, Some e), w2) \<Rightarrow>
                    Some (Some e,
                          Printf w2 (''[ERROR] context: create parent page ('' @ Url (heap w2 ! parent)
                                     @ '') - message: '' @ Error e @ [CHR 0x0A]))
                | Some ((parentUid, None), w2) \<Rightarrow>
                    (case CheckOrCreatePredicate w2 parentUid currentUid of
                       (None, w3) \<Rightarrow> Some (None, w3)
                     | (Some e, w3) \<Rightarrow>
                         (let w4 = Printf w3 (''[ERROR] create predicate ('' @ parentUid @ '' -> ''
                                      @ currentUid @ '') - message: '' @ Error e @ [CHR 0x0A])
                          in if \<not> Contains (Error e) TransactionAborted
                                \<and> \<not> Contains (Error e) TransactionTooOld
                             then Some (Some e, w4)
                             else Some (Some e, w4))))))"

subsection \<open>Scenarios\<close>

text \<open>A world with the given script and pages, in which nothing has happened yet.\<close>

definition freshWorld :: "(nat \<Rightarrow> txn_script) \<Rightarrow> heap \<Rightarrow> World" where
  "freshWorld s h = \<lparr>script = s, opened = 0, issued = [], heap = h, stdout = [], logged = []\<rparr>"

text \<open>A page that was fetched and is not yet persisted.\<close>

definition seedPage :: Page where
  "seedPage =
     \<lparr>Uid = [], Url = ''http://example.edu'', Children = [], Parent = None, Depth = 1,
      Timestamp = 1, Body = []\<rparr>"

text \<open>The store's answer to a node query when no node has the url, and when one has.\<close>

definition noNode :: payload where
  "noNode = Json (JObject [(''result'', JArray [])])"

definition nodeWithUid :: "string \<Rightarrow> payload" where
  "nodeWithUid u = Json (JObject [(''result'', JArray [JObject [(''uid'', JString u)]])])"

text \<open>
  A store that has no node for the url and accepts the mutation, but whose every commit
  fails with an error that is not a transaction conflict.
\<close>

definition Unavailable :: error where
  "Unavailable = Err ''rpc error: code = Unavailable desc = transport is closing''"

definition failingCommits :: "nat \<Rightarrow> txn_script" where
  "failingCommits n =
     \<lparr>queryResp = Inr noNode, mutateResp = Inr [(''blank-0'', ''0x1'')],
      commitResp = Some Unavailable\<rparr>"

text \<open>
  A store whose first commit fails in that way, and which from then on has a node for the
  url (another writer stored it).
\<close>

definition failsOnce :: "nat \<Rightarrow> txn_script" where
  "failsOnce n =
     (if n = 0 then failingCommits 0
      else \<lparr>queryResp = Inr (nodeWithUid ''0x7''), mutateResp = Inr [], commitResp = None\<rparr>)"

text \<open>
  A parent and its child, both known to the store (the child's node is found by the first
  transaction, the parent's by the second), and a store in which every later
  transaction sees no edge and rejects the edge mutation and the commit with a
  transaction conflict.
\<close>

definition family :: heap where
  "family =
     [\<lparr>Uid = [], Url = ''http://example.edu'', Children = [1], Parent = None, Depth = 2,
        Timestamp = 1, Body = []\<rparr>,
      \<lparr>Uid = [], Url = ''http://example.edu/a'', Children = [], Parent = Some 0, Depth = 1,
        Timestamp = 2, Body = []\<rparr>]"

definition noEdge :: payload where
  "noEdge = Json (JObject [(''edges'', JArray [JObject [(''matching'', JNumber 0)]])])"

definition abortedEdge :: txn_script where
  "abortedEdge =
     \<lparr>queryResp = Inr noEdge, mutateResp = Inl (Err TransactionAborted),
      commitResp = Some (Err TransactionAborted)\<rparr>"

definition abortedEdges :: "nat \<Rightarrow> txn_script" where
  "abortedEdges n =
     (if n = 0 then \<lparr>queryResp = Inr (nodeWithUid ''0x2''), mutateResp = Inr [], commitResp = None\<rparr>
      else if n = 1 then \<lparr>queryResp = Inr (nodeWithUid ''0x1''), mutateResp = Inr [], commitResp = None\<rparr>
      else abortedEdge)"

section \<open>The page package: patterns\<close>

text \<open>
  The three patterns of the package use literals, byte ranges, concatenation, an optional
  group and \<^verbatim>\<open>+\<close>; \<^verbatim>\<open>^\<close> and \<^verbatim>\<open>$\<close> stand only at the very beginning and the very end. A
  pattern is therefore a regular expression with two flags. All atoms are ASCII, so
  matching bytes is the same as matching runes. \<^verbatim>\<open>regexp.MatchString\<close> asks whether some
  part of the text matches: the text before the match is arbitrary unless the pattern
  starts with \<^verbatim>\<open>^\<close>, the text after it unless the pattern ends with \<^verbatim>\<open>$\<close>. The matcher
  works by derivatives.
\<close>

datatype rexp =
    Zero
  | One
  | Byte char
  | Range char char
  | AnyByte
  | Times rexp rexp
  | Alt rexp rexp
  | Star rexp

definition Opt :: "rexp \<Rightarrow> rexp" where
  "Opt r = Alt r One"

definition Plus :: "rexp \<Rightarrow> rexp" where
  "Plus r = Times r (Star r)"

fun Lit :: "string \<Rightarrow> rexp" where
  "Lit [] = One"
| "Lit (c # cs) = Times (Byte c) (Lit cs)"

fun nullable :: "rexp \<Rightarrow> bool" where
  "nullable Zero = False"
| "nullable One = True"
| "nullable (Byte c) = False"
| "nullable (Range lo hi) = False"
| "nullable AnyByte = False"
| "nullable (Times r s) = (nullable r \<and> nullable s)"
| "nullable (Alt r s) = (nullable r \<or> nullable s)"
| "nullable (Star r) = True"

fun deriv :: "char \<Rightarrow> rexp \<Rightarrow> rexp" where
  "deriv c Zero = Zero"
| "deriv c One = Zero"
| "deriv c (Byte d) = (if c = d then One else Zero)"
| "deriv c (Range lo hi) =
     (if (of_char lo :: nat) \<le> of_char c \<and> (of_char c :: nat) \<le> of_char hi then One else Zero)"
| "deriv c AnyByte = One"
| "deriv c (Times r s) =
     (if nullable r then Alt (Times (deriv c r) s) (deriv c s) else Times (deriv c r) s)"
| "deriv c (Alt r s) = Alt (deriv c r) (deriv c s)"
| "deriv c (Star r) = Times (deriv c r) (Star r)"

fun matches :: "rexp \<Rightarrow> string \<Rightarrow> bool" where
  "matches r [] = nullable r"
| "matches r (c # s) = matches (deriv c r) s"

record pattern =
  fromStart :: bool
  expr :: rexp
  toEnd :: bool

definition MatchString :: "pattern \<Rightarrow> string \<Rightarrow> bool" where
  "MatchString p s =
     matches (Times (if fromStart p then One else Star AnyByte)
                (Times (expr p) (if toEnd p then One else Star AnyByte))) s"

text \<open>\<^verbatim>\<open>^(?:[a-zA-Z]+:)?//\<close>\<close>

definition letter :: rexp where
  "letter = Alt (Range CHR ''a'' CHR ''z'') (Range CHR ''A'' CHR ''Z'')"

definition schemePrefix :: pattern where
  "schemePrefix =
     \<lparr>fromStart = True,
      expr = Times (Opt (Times (Plus letter) (Byte CHR '':''))) (Lit ''//''),
      toEnd = False\<rparr>"

text \<open>\<^verbatim>\<open>(\.html$)\<close> and \<^verbatim>\<open>(\.[a-zA-Z0-9]+$)\<close>\<close>

definition dotHtml :: pattern where
  "dotHtml = \<lparr>fromStart = False, expr = Lit ''.html'', toEnd = True\<rparr>"

definition alnum :: rexp where
  "alnum = Alt letter (Range CHR ''0'' CHR ''9'')"

definition dotExtension :: pattern where
  "dotExtension =
     \<lparr>fromStart = False, expr = Times (Byte CHR ''.'') (Plus alnum), toEnd = True\<rparr>"

definition IsRelativeUrl :: "string \<Rightarrow> bool" where
  "IsRelativeUrl href = (\<not> MatchString schemePrefix href)"

definition IsRelativeHtml :: "string \<Rightarrow> bool" where
  "IsRelativeHtml href =
     (if MatchString dotHtml href then True else \<not> MatchString dotExtension href)"

text \<open>
  What the first pattern accepts, said of the text itself: \<open>href\<close> begins with \<^verbatim>\<open>//\<close>, or
  with one or more ASCII letters followed by \<^verbatim>\<open>://\<close>.
\<close>

definition isLetter :: "char \<Rightarrow> bool" where
  "isLetter c =
     ((of_char CHR ''a'' :: nat) \<le> of_char c \<and> (of_char c :: nat) \<le> of_char CHR ''z''
      \<or> (of_char CHR ''A'' :: nat) \<le> of_char c \<and> (of_char c :: nat) \<le> of_char CHR ''Z'')"

definition beginsWithOptionalLettersAndSlashes :: "string \<Rightarrow> bool" where
  "beginsWithOptionalLettersAndSlashes href =
     (HasPrefix href ''//''
      \<or> takeWhile isLetter href \<noteq> [] \<and> HasPrefix (dropWhile isLetter href) ''://'')"

text \<open>
  The words of the specification: \<open>href\<close> begins with an optional scheme followed by
  \<^verbatim>\<open>//\<close>. A scheme is what RFC 3986 calls one, and what \<^verbatim>\<open>url.Parse\<close> takes for one: a
  letter followed by letters, digits, \<^verbatim>\<open>+\<close>, \<^verbatim>\<open>-\<close> and \<^verbatim>\<open>.\<close>; it ends at the first colon.
\<close>

definition isSchemeByte :: "char \<Rightarrow> bool" where
  "isSchemeByte c =
     (isLetter c
      \<or> (of_char CHR ''0'' :: nat) \<le> of_char c \<and> (of_char c :: nat) \<le> of_char CHR ''9''
      \<or> c = CHR ''+'' \<or> c = CHR ''-'' \<or> c = CHR ''.'')"

definition isScheme :: "string \<Rightarrow> bool" where
  "isScheme s = (case s of [] \<Rightarrow> False | c # cs \<Rightarrow> isLetter c \<and> list_all isSchemeByte cs)"

definition beginsWithOptionalSchemeAndSlashes :: "string \<Rightarrow> bool" where
  "beginsWithOptionalSchemeAndSlashes href =
     (HasPrefix href ''//''
      \<or> isScheme (takeWhile (\<lambda>c. c \<noteq> CHR '':'') href)
        \<and> HasPrefix (dropWhile (\<lambda>c. c \<noteq> CHR '':'') href) ''://'')"

text \<open>The language of a regular expression.\<close>

inductive_set star :: "string set \<Rightarrow> string set" for A :: "string set" where
  star_empty: "[] \<in> star A"
| star_step: "u \<in> A \<Longrightarrow> v \<in> star A \<Longrightarrow> u @ v \<in> star A"

fun lang :: "rexp \<Rightarrow> string set" where
  "lang Zero = {}"
| "lang One = {[]}"
| "lang (Byte c) = {[c]}"
| "lang (Range lo hi) = {[c] | c. (of_char lo :: nat) \<le> of_char c \<and> (of_char c :: nat) \<le> of_char hi}"
| "lang AnyByte = {[c] | c. True}"
| "lang (Times r s) = {u @ v | u v. u \<in> lang r \<and> v \<in> lang s}"
| "lang (Alt r s) = lang r \<union> lang s"
| "lang (Star r) = star (lang r)"

section \<open>The page package: URLs\<close>

subsection \<open>Strings\<close>

text \<open>
  \<^verbatim>\<open>strings.IndexByte\<close> and \<^verbatim>\<open>strings.LastIndex\<close> for one byte (\<open>None\<close> for -1),
  \<^verbatim>\<open>strings.HasSuffix\<close>, \<^verbatim>\<open>strings.Count\<close> for one byte, \<^verbatim>\<open>strings.ToLower\<close> on ASCII and
  \<^verbatim>\<open>strings.TrimRight\<close> for a cutset of one byte.
\<close>

fun IndexByte :: "string \<Rightarrow> char \<Rightarrow> nat option" where
  "IndexByte [] c = None"
| "IndexByte (x # s) c =
     (if x = c then Some 0 else (case IndexByte s c of None \<Rightarrow> None | Some i \<Rightarrow> Some (Suc i)))"

fun LastIndexByte :: "string \<Rightarrow> char \<Rightarrow> nat option" where
  "LastIndexByte [] c = None"
| "LastIndexByte (x # s) c =
     (case LastIndexByte s c of
        Some i \<Rightarrow> Some (Suc i)
      | None \<Rightarrow> (if x = c then Some 0 else None))"

definition HasSuffix :: "string \<Rightarrow> string \<Rightarrow> bool" where
  "HasSuffix s suffix = HasPrefix (rev s) (rev suffix)"

definition CountByte :: "string \<Rightarrow> char \<Rightarrow> nat" where
  "CountByte s c = length (filter (\<lambda>x. x = c) s)"

definition toLowerByte :: "char \<Rightarrow> char" where
  "toLowerByte c =
     (if (of_char CHR ''A'' :: nat) \<le> of_char c \<and> (of_char c :: nat) \<le> of_char CHR ''Z''
      then char_of (of_char c + (32::nat)) else c)"

definition ToLower :: "string \<Rightarrow> string" where
  "ToLower s = map toLowerByte s"

definition TrimRight :: "string \<Rightarrow> char \<Rightarrow> string" where
  "TrimRight s c = rev (dropWhile (\<lambda>x. x = c) (rev s))"

subsection \<open>path.Clean\<close>

text \<open>
  \<^verbatim>\<open>path.Clean\<close> reads the path from left to right and writes into a buffer, which the
  model keeps reversed (its last byte first). \<open>dotdot\<close> is the length below which
  \<^verbatim>\<open>..\<close> must not cut. \<open>backtrack\<close> is the inner loop of the \<^verbatim>\<open>..\<close> case: \<open>x\<close> is the
  byte that was dropped last.
\<close>

fun backtrack :: "nat \<Rightarrow> char \<Rightarrow> string \<Rightarrow> string" where
  "backtrack dotdot x [] = []"
| "backtrack dotdot x (y # out) =
     (if length (y # out) > dotdot \<and> x \<noteq> CHR ''/'' then backtrack dotdot y out else y # out)"

function Clean_loop :: "bool \<Rightarrow> string \<Rightarrow> string \<Rightarrow> nat \<Rightarrow> string" where
  "Clean_loop rooted [] out dotdot = out"
| "Clean_loop rooted (c # p) out dotdot =
     (if c = CHR ''/'' then Clean_loop rooted p out dotdot
      else if c = CHR ''.'' \<and> (p = [] \<or> hd p = CHR ''/'') then Clean_loop rooted p out dotdot
      else if c = CHR ''.'' \<and> hd p = CHR ''.'' \<and> (tl p = [] \<or> hd (tl p) = CHR ''/'') then
        (if length out > dotdot then
           Clean_loop rooted (tl p) (backtrack dotdot (hd out) (tl out)) dotdot
         else if \<not> rooted then
           Clean_loop rooted (tl p) (''..'' @ (if out \<noteq> [] then CHR ''/'' # out else out))
             (length out + (if out \<noteq> [] then 3 else 2))
         else Clean_loop rooted (tl p) out dotdot)
      else
        Clean_loop rooted (dropWhile (\<lambda>x. x \<noteq> CHR ''/'') (c # p))
          (rev (takeWhile (\<lambda>x. x \<noteq> CHR ''/'') (c # p)) @
           (if rooted \<and> length out \<noteq> 1 \<or> \<not> rooted \<and> length out \<noteq> 0 then CHR ''/'' # out else out))
          dotdot)"
  by pat_completeness auto
termination
proof (relation "measure (\<lambda>(rooted, p, out, dotdot). length p)")
  show "wf (measure (\<lambda>(rooted, p, out, dotdot). length p))" by simp
next
  fix rooted :: bool and c :: char and p out :: string and dotdot :: nat
  assume "c \<noteq> CHR ''/''"
  then have "dropWhile (\<lambda>x. x \<noteq> CHR ''/'') (c # p) = dropWhile (\<lambda>x. x \<noteq> CHR ''/'') p" by simp
  moreover have "length (dropWhile (\<lambda>x. x \<noteq> CHR ''/'') p) \<le> length p"
    by (rule length_dropWhile_le)
  ultimately show "((rooted, dropWhile (\<lambda>x. x \<noteq> CHR ''/'') (c # p),
        rev (takeWhile (\<lambda>x. x \<noteq> CHR ''/'') (c # p)) @
        (if rooted \<and> length out \<noteq> 1 \<or> \<not> rooted \<and> length out \<noteq> 0 then CHR ''/'' # out else out),
        dotdot), rooted, c # p, out, dotdot) \<in> measure (\<lambda>(rooted, p, out, dotdot). length p)"
    by simp
qed auto

declare Clean_loop.simps [simp del]

definition Clean :: "string \<Rightarrow> string" where
  "Clean path =
     (if path = [] then ''.''
      else (let rooted = (hd path = CHR ''/'');
                out = (if rooted then Clean_loop rooted (tl path) ''/'' 1
                       else Clean_loop rooted path [] 0)
            in if out = [] then ''.'' else rev out))"

subsection \<open>net/url\<close>

text \<open>
  \<^verbatim>\<open>url.Parse\<close> and \<^verbatim>\<open>(*URL).String\<close> of the Go standard library, as of the Go 1.14 that
  the module file names, function by function. The messages of the errors are shortened
  (the library quotes the offending text in them).
\<close>

record Userinfo =
  username :: string
  password :: string
  passwordSet :: bool

record URL =
  Scheme :: string
  Opaque :: string
  User :: "Userinfo option"
  Host :: string
  Path :: string
  RawPath :: string
  ForceQuery :: bool
  RawQuery :: string
  Fragment :: string

definition emptyURL :: URL where
  "emptyURL =
     \<lparr>Scheme = [], Opaque = [], User = None, Host = [], Path = [], RawPath = [],
      ForceQuery = False, RawQuery = [], Fragment = []\<rparr>"

datatype encoding =
    encodePath
  | encodePathSegment
  | encodeHost
  | encodeZone
  | encodeUserPassword
  | encodeQueryComponent
  | encodeFragment

definition byteIn :: "char \<Rightarrow> char \<Rightarrow> char \<Rightarrow> bool" where
  "byteIn lo hi c = ((of_char lo :: nat) \<le> of_char c \<and> (of_char c :: nat) \<le> of_char hi)"

definition isAlpha :: "char \<Rightarrow> bool" where
  "isAlpha c = (byteIn CHR ''a'' CHR ''z'' c \<or> byteIn CHR ''A'' CHR ''Z'' c)"

definition isDigit :: "char \<Rightarrow> bool" where
  "isDigit c = byteIn CHR ''0'' CHR ''9'' c"

text \<open>In the byte lists below, \<open>CHR 0x27\<close> is the apostrophe and \<open>CHR 0x22\<close> the double quote.\<close>

definition shouldEscape :: "char \<Rightarrow> encoding \<Rightarrow> bool" where
  "shouldEscape c mode =
     (if isAlpha c \<or> isDigit c then False
      else if (mode = encodeHost \<or> mode = encodeZone)
              \<and> c \<in> set (''!$&'' @ [CHR 0x27] @ ''()*+,;=:[]<>'' @ [CHR 0x22]) then False
      else if c \<in> set ''-_.~'' then False
      else if c \<in> set ''$&+,/:;=?@'' \<and> mode = encodePath then c = CHR ''?''
      else if c \<in> set ''$&+,/:;=?@'' \<and> mode = encodePathSegment then c \<in> set ''/;,?''
      else if c \<in> set ''$&+,/:;=?@'' \<and> mode = encodeUserPassword then c \<in> set ''@/?:''
      else if c \<in> set ''$&+,/:;=?@'' \<and> mode = encodeQueryComponent then True
      else if c \<in> set ''$&+,/:;=?@'' \<and> mode = encodeFragment then False
      else if mode = encodeFragment \<and> c \<in> set ''!()*'' then False
      else True)"

definition ishex :: "char \<Rightarrow> bool" where
  "ishex c = (isDigit c \<or> byteIn CHR ''a'' CHR ''f'' c \<or> byteIn CHR ''A'' CHR ''F'' c)"

definition unhex :: "char \<Rightarrow> nat" where
  "unhex c =
     (if isDigit c then of_char c - of_char CHR ''0''
      else if byteIn CHR ''a'' CHR ''f'' c then of_char c - of_char CHR ''a'' + 10
      else if byteIn CHR ''A'' CHR ''F'' c then of_char c - of_char CHR ''A'' + 10
      else 0)"

definition EscapeError :: "string \<Rightarrow> error" where
  "EscapeError s = Err (''invalid URL escape '' @ s)"

definition InvalidHostError :: "string \<Rightarrow> error" where
  "InvalidHostError s = Err (''invalid character '' @ s @ '' in host name'')"

text \<open>
  \<^verbatim>\<open>unescape\<close>: the first loop checks the escapes (\<open>unescapeCheck\<close>), the second decodes
  them (\<open>unescapeBytes\<close>).
\<close>

fun unescapeCheck :: "string \<Rightarrow> encoding \<Rightarrow> error option" where
  "unescapeCheck [] mode = None"
| "unescapeCheck (c # s) mode =
     (if c = CHR ''%'' then
        (case s of
           a # b # rest \<Rightarrow>
             if \<not> (ishex a \<and> ishex b) then Some (EscapeError (take 3 (c # s)))
             else if mode = encodeHost \<and> unhex a < 8 \<and> [c, a, b] \<noteq> ''%25''
               then Some (EscapeError [c, a, b])
             else if mode = encodeZone \<and> [c, a, b] \<noteq> ''%25'' \<and> unhex a * 16 + unhex b \<noteq> 32
                     \<and> shouldEscape (char_of (unhex a * 16 + unhex b)) encodeHost
               then Some (EscapeError [c, a, b])
             else unescapeCheck rest mode
         | _ \<Rightarrow> Some (EscapeError (take 3 (c # s))))
      else if c = CHR ''+'' then unescapeCheck s mode
      else if (mode = encodeHost \<or> mode = encodeZone) \<and> (of_char c :: nat) < 0x80
              \<and> shouldEscape c encodeHost
        then Some (InvalidHostError [c])
      else unescapeCheck s mode)"

fun unescapeBytes :: "string \<Rightarrow> encoding \<Rightarrow> string" where
  "unescapeBytes [] mode = []"
| "unescapeBytes (c # s) mode =
     (if c = CHR ''%'' then
        (case s of
           a # b # rest \<Rightarrow> char_of (unhex a * 16 + unhex b) # unescapeBytes rest mode
         | _ \<Rightarrow> c # unescapeBytes s mode)
      else if c = CHR ''+'' \<and> mode = encodeQueryComponent then CHR '' '' # unescapeBytes s mode
      else c # unescapeBytes s mode)"

definition unescape :: "string \<Rightarrow> encoding \<Rightarrow> error + string" where
  "unescape s mode =
     (case unescapeCheck s mode of Some e \<Rightarrow> Inl e | None \<Rightarrow> Inr (unescapeBytes s mode))"

definition upperhex :: "nat \<Rightarrow> char" where
  "upperhex n = ''0123456789ABCDEF'' ! n"

definition escapeByte :: "encoding \<Rightarrow> char \<Rightarrow> string" where
  "escapeByte mode c =
     (if shouldEscape c mode then
        (if c = CHR '' '' \<and> mode = encodeQueryComponent then ''+''
         else [CHR ''%'', upperhex (of_char c div 16), upperhex (of_char c mod 16)])
      else [c])"

definition escape :: "string \<Rightarrow> encoding \<Rightarrow> string" where
  "escape s mode = concat (map (escapeByte mode) s)"

text \<open>\<^verbatim>\<open>getscheme\<close>: \<open>i\<close> is the index of the byte at the head of the first argument.\<close>

fun getscheme_loop :: "string \<Rightarrow> nat \<Rightarrow> string \<Rightarrow> error + string \<times> string" where
  "getscheme_loop [] i rawurl = Inr ([], rawurl)"
| "getscheme_loop (c # cs) i rawurl =
     (if isAlpha c then getscheme_loop cs (i + 1) rawurl
      else if isDigit c \<or> c = CHR ''+'' \<or> c = CHR ''-'' \<or> c = CHR ''.'' then
        (if i = 0 then Inr ([], rawurl) else getscheme_loop cs (i + 1) rawurl)
      else if c = CHR '':'' then
        (if i = 0 then Inl (Err ''missing protocol scheme'')
         else Inr (take i rawurl, drop (i + 1) rawurl))
      else Inr ([], rawurl))"

definition getscheme :: "string \<Rightarrow> error + string \<times> string" where
  "getscheme rawurl = getscheme_loop rawurl 0 rawurl"

definition split :: "string \<Rightarrow> char \<Rightarrow> bool \<Rightarrow> string \<times> string" where
  "split s c cutc =
     (case IndexByte s c of
        None \<Rightarrow> (s, [])
      | Some i \<Rightarrow> if cutc then (take i s, drop (i + 1) s) else (take i s, drop i s))"

definition stringContainsCTLByte :: "string \<Rightarrow> bool" where
  "stringContainsCTLByte s = list_ex (\<lambda>b. (of_char b :: nat) < 0x20 \<or> (of_char b :: nat) = 0x7f) s"

definition validOptionalPort :: "string \<Rightarrow> bool" where
  "validOptionalPort port =
     (case port of [] \<Rightarrow> True | c # digits \<Rightarrow> c = CHR '':'' \<and> list_all isDigit digits)"

definition validUserinfo :: "string \<Rightarrow> bool" where
  "validUserinfo s =
     list_all (\<lambda>r. isAlpha r \<or> isDigit r
                 \<or> r \<in> set (''-._:~!$&'' @ [CHR 0x27] @ ''()*+,;=%@'')) s"

text \<open>\<^verbatim>\<open>strings.Index\<close> for a substring.\<close>

fun Index :: "string \<Rightarrow> string \<Rightarrow> nat option" where
  "Index [] substr = (if substr = [] then Some 0 else None)"
| "Index (c # s) substr =
     (if HasPrefix (c # s) substr then Some 0
      else (case Index s substr of None \<Rightarrow> None | Some i \<Rightarrow> Some (Suc i)))"

definition parseHost :: "string \<Rightarrow> error + string" where
  "parseHost host =
     (if HasPrefix host ''['' then
        (case LastIndexByte host CHR '']'' of
           None \<Rightarrow> Inl (Err ''missing ] in host'')
         | Some i \<Rightarrow>
             if \<not> validOptionalPort (drop (i + 1) host) then Inl (Err ''invalid port after host'')
             else
               (case Index (take i host) ''%25'' of
                  Some zone \<Rightarrow>
                    (case unescape (take zone host) encodeHost of
                       Inl e \<Rightarrow> Inl e
                     | Inr host1 \<Rightarrow>
                         (case unescape (drop zone (take i host)) encodeZone of
                            Inl e \<Rightarrow> Inl e
                          | Inr host2 \<Rightarrow>
                              (case unescape (drop i host) encodeHost of
                                 Inl e \<Rightarrow> Inl e
                               | Inr host3 \<Rightarrow> Inr (host1 @ host2 @ host3))))
                | None \<Rightarrow> unescape host encodeHost))
      else
        (case LastIndexByte host CHR '':'' of
           Some i \<Rightarrow>
             if \<not> validOptionalPort (drop i host) then Inl (Err ''invalid port after host'')
             else unescape host encodeHost
         | None \<Rightarrow> unescape host encodeHost))"

definition parseAuthority :: "string \<Rightarrow> error + Userinfo option \<times> string" where
  "parseAuthority authority =
     (case LastIndexByte authority CHR ''@'' of
        None \<Rightarrow>
          (case parseHost authority of Inl e \<Rightarrow> Inl e | Inr host \<Rightarrow> Inr (None, host))
      | Some i \<Rightarrow>
          (case parseHost (drop (i + 1) authority) of
             Inl e \<Rightarrow> Inl e
           | Inr host \<Rightarrow>
               (let userinfo = take i authority in
                if \<not> validUserinfo userinfo then Inl (Err ''net/url: invalid userinfo'')
                else if \<not> Contains userinfo '':'' then
                  (case unescape userinfo encodeUserPassword of
                     Inl e \<Rightarrow> Inl e
                   | Inr name \<Rightarrow>
                       Inr (Some \<lparr>username = name, password = [], passwordSet = False\<rparr>, host))
                else
                  (case split userinfo CHR '':'' True of
                     (name, pass) \<Rightarrow>
                       (case unescape name encodeUserPassword of
                          Inl e \<Rightarrow> Inl e
                        | Inr name' \<Rightarrow>
                            (case unescape pass encodeUserPassword of
                               Inl e \<Rightarrow> Inl e
                             | Inr pass' \<Rightarrow>
                                 Inr (Some \<lparr>username = name', password = pass',
                                            passwordSet = True\<rparr>, host)))))))"

definition setPath :: "URL \<Rightarrow> string \<Rightarrow> error + URL" where
  "setPath u p =
     (case unescape p encodePath of
        Inl e \<Rightarrow> Inl e
      | Inr path \<Rightarrow>
          Inr (u\<lparr>Path := path, RawPath := (if escape path encodePath = p then [] else p)\<rparr>))"

text \<open>\<^verbatim>\<open>parse(rawurl, false)\<close>, the case \<^verbatim>\<open>viaRequest = false\<close> that \<^verbatim>\<open>Parse\<close> uses.\<close>

definition parse_authority_and_path :: "URL \<Rightarrow> string \<Rightarrow> error + URL" where
  "parse_authority_and_path u rest =
     (if (Scheme u \<noteq> [] \<or> \<not> HasPrefix rest ''///'') \<and> HasPrefix rest ''//'' then
        (case split (drop 2 rest) CHR ''/'' False of
           (authority, rest') \<Rightarrow>
             (case parseAuthority authority of
                Inl e \<Rightarrow> Inl e
              | Inr (user, host) \<Rightarrow> setPath (u\<lparr>User := user, Host := host\<rparr>) rest'))
      else setPath u rest)"

definition parse :: "string \<Rightarrow> error + URL" where
  "parse rawurl =
     (if stringContainsCTLByte rawurl then Inl (Err ''net/url: invalid control character in URL'')
      else if rawurl = ''*'' then Inr (emptyURL\<lparr>Path := ''*''\<rparr>)
      else
        (case getscheme rawurl of
           Inl e \<Rightarrow> Inl e
         | Inr (scheme, rest0) \<Rightarrow>
             (let u0 = emptyURL\<lparr>Scheme := ToLower scheme\<rparr>;
                  forced = (HasSuffix rest0 ''?'' \<and> CountByte rest0 CHR ''?'' = 1);
                  rest = (if forced then butlast rest0 else fst (split rest0 CHR ''?'' True));
                  u = (if forced then u0\<lparr>ForceQuery := True\<rparr>
                       else u0\<lparr>RawQuery := snd (split rest0 CHR ''?'' True)\<rparr>)
              in if \<not> HasPrefix rest ''/'' then
                   (if Scheme u \<noteq> [] then Inr (u\<lparr>Opaque := rest\<rparr>)
                    else
                      (case IndexByte rest CHR '':'' of
                         None \<Rightarrow> parse_authority_and_path u rest
                       | Some colon \<Rightarrow>
                           (case IndexByte rest CHR ''/'' of
                              None \<Rightarrow> Inl (Err ''first path segment in URL cannot contain colon'')
                            | Some slash \<Rightarrow>
                                if colon < slash
                                then Inl (Err ''first path segment in URL cannot contain colon'')
                                else parse_authority_and_path u rest)))
                 else parse_authority_and_path u rest)))"

definition Parse :: "string \<Rightarrow> error + URL" where
  "Parse rawurl =
     (case split rawurl CHR ''#'' True of
        (u, frag) \<Rightarrow>
          (case parse u of
             Inl e \<Rightarrow> Inl e
           | Inr url \<Rightarrow>
               if frag = [] then Inr url
               else
                 (case unescape frag encodeFragment of
                    Inl e \<Rightarrow> Inl e
                  | Inr f \<Rightarrow> Inr (url\<lparr>Fragment := f\<rparr>))))"

definition validEncodedPath :: "string \<Rightarrow> bool" where
  "validEncodedPath s =
     list_all (\<lambda>c. c \<in> set (''!$&'' @ [CHR 0x27] @ ''()*+,;=:@[]%'') \<or> \<not> shouldEscape c encodePath) s"

definition EscapedPath :: "URL \<Rightarrow> string" where
  "EscapedPath u =
     (if RawPath u \<noteq> [] \<and> validEncodedPath (RawPath u)
         \<and> unescape (RawPath u) encodePath = Inr (Path u)
      then RawPath u
      else if Path u = ''*'' then ''*''
      else escape (Path u) encodePath)"

definition Userinfo_String :: "Userinfo \<Rightarrow> string" where
  "Userinfo_String ui =
     escape (username ui) encodeUserPassword @
     (if passwordSet ui then '':'' @ escape (password ui) encodeUserPassword else [])"

definition firstSegmentHasColon :: "string \<Rightarrow> bool" where
  "firstSegmentHasColon path =
     (case IndexByte path CHR '':'' of
        None \<Rightarrow> False
      | Some i \<Rightarrow> IndexByte (take i path) CHR ''/'' = None)"

definition URL_String :: "URL \<Rightarrow> string" where
  "URL_String u =
     (let buf1 = (if Scheme u \<noteq> [] then Scheme u @ '':'' else []);
          buf2 =
            (if Opaque u \<noteq> [] then buf1 @ Opaque u
             else
               (let buf3 =
                      (if Scheme u \<noteq> [] \<or> Host u \<noteq> [] \<or> User u \<noteq> None then
                         buf1
                         @ (if Host u \<noteq> [] \<or> Path u \<noteq> [] \<or> User u \<noteq> None then ''//'' else [])
                         @ (case User u of None \<Rightarrow> [] | Some ui \<Rightarrow> Userinfo_String ui @ ''@'')
                         @ (if Host u \<noteq> [] then escape (Host u) encodeHost else [])
                       else buf1);
                    path = EscapedPath u;
                    buf4 = (if path \<noteq> [] \<and> hd path \<noteq> CHR ''/'' \<and> Host u \<noteq> [] then buf3 @ ''/''
                            else buf3);
                    buf5 = (if buf4 = [] \<and> firstSegmentHasColon path then buf4 @ ''./'' else buf4)
                in buf5 @ path))
      in buf2
         @ (if ForceQuery u \<or> RawQuery u \<noteq> [] then ''?'' @ RawQuery u else [])
         @ (if Fragment u \<noteq> [] then ''#'' @ escape (Fragment u) encodeFragment else []))"

subsection \<open>The package's own functions\<close>

text \<open>\<^verbatim>\<open>ParseRelativeUrl\<close>: \<open>None\<close> is the nil result.\<close>

definition ParseRelativeUrl :: "string \<Rightarrow> string \<Rightarrow> URL option" where
  "ParseRelativeUrl rootUrl relativeUrl =
     (case Parse rootUrl of
        Inl err \<Rightarrow> None
      | Inr parsedRootUrl \<Rightarrow>
          (case Parse (Scheme parsedRootUrl @ ''://'' @ Host parsedRootUrl
                       @ Clean (''/'' @ relativeUrl)) of
             Inl err \<Rightarrow> None
           | Inr absoluteUrl \<Rightarrow> Some (absoluteUrl\<lparr>Fragment := []\<rparr>)))"







subsection \<open>FetchChildPages\<close>

text \<open>
  The response of \<^verbatim>\<open>http.Get\<close>: its \<^verbatim>\<open>Content-Type\<close> header and its body, a stream that
  can be read once. \<open>pending\<close> is what has not been read yet; \<open>failure\<close> is the error the
  stream ends with (\<open>None\<close> for a regular end of file).
\<close>

record Reader =
  pending :: string
  failure :: "error option"

record Response =
  ContentType :: string
  RespBody :: Reader

text \<open>\<^verbatim>\<open>ioutil.ReadAll\<close>: everything that is still pending, and the stream's error.\<close>

definition ReadAll :: "Reader \<Rightarrow> (string \<times> error option) \<times> Reader" where
  "ReadAll r = ((pending r, failure r), r\<lparr>pending := []\<rparr>)"

text \<open>
  \<^verbatim>\<open>goquery.NewDocumentFromReader\<close> reads the stream to its end and parses what it read.
  Of the document the program uses only \<^verbatim>\<open>doc.Find("a")\<close> and, per element, the \<^verbatim>\<open>href\<close>
  attribute: a document is the list of these attributes in document order (\<open>None\<close> for
  an element without \<^verbatim>\<open>href\<close>). The HTML parser itself is the parameter \<open>anchors\<close>.
\<close>

definition NewDocumentFromReader ::
  "(string \<Rightarrow> string option list) \<Rightarrow> Reader \<Rightarrow> (error + string option list) \<times> Reader" where
  "NewDocumentFromReader anchors r =
     (case ReadAll r of
        ((text, Some e), r') \<Rightarrow> (Inl e, r')
      | ((text, None), r') \<Rightarrow> (Inr (anchors text), r'))"

text \<open>\<^verbatim>\<open>parseHtml\<close>: the triple \<^verbatim>\<open>(doc, body, err)\<close>.\<close>

definition parseHtml ::
  "(string \<Rightarrow> string option list) \<Rightarrow> Response \<Rightarrow> string option list option \<times> string \<times> error option" where
  "parseHtml anchors resp =
     (case NewDocumentFromReader anchors (RespBody resp) of
        (Inl e, r) \<Rightarrow> (None, [], Some e)
      | (Inr doc, r) \<Rightarrow>
          (case ReadAll r of ((bodyBytes, err), r') \<Rightarrow> (Some doc, bodyBytes, err)))"

text \<open>
  The callback of \<^verbatim>\<open>Each\<close>, run over the anchors in order; \<open>localProcessed\<close> holds the
  paths seen so far. \<^verbatim>\<open>ParseRelativeUrl\<close> may return nil; the callback reads
  \<^verbatim>\<open>absoluteUrl.Path\<close> without a test, and the panic (\<open>None\<close>) ends the call.
\<close>

fun eachAnchor ::
  "Page \<Rightarrow> string \<Rightarrow> string option list \<Rightarrow> string list \<Rightarrow> Page list \<Rightarrow> Page list option" where
  "eachAnchor page body [] localProcessed childPages = Some childPages"
| "eachAnchor page body (None # items) localProcessed childPages =
     eachAnchor page body items localProcessed childPages"
| "eachAnchor page body (Some href # items) localProcessed childPages =
     (if IsRelativeUrl href \<and> IsRelativeHtml href \<and> href \<noteq> [] then
        (case ParseRelativeUrl (Url page) href of
           None \<Rightarrow> None
         | Some absoluteUrl \<Rightarrow>
             if Path absoluteUrl \<in> set localProcessed
             then eachAnchor page body items localProcessed childPages
             else eachAnchor page body items (Path absoluteUrl # localProcessed)
                    (childPages @
                     [\<lparr>Uid = [], Url = TrimRight (URL_String absoluteUrl) CHR ''/'', Children = [],
                        Parent = None, Depth = Depth page - 1, Timestamp = 0, Body = body\<rparr>]))
      else eachAnchor page body items localProcessed childPages)"

text \<open>
  \<^verbatim>\<open>FetchChildPages\<close>: the pair \<^verbatim>\<open>(childPages, err)\<close> and the lines it logged; \<open>get\<close> is
  \<^verbatim>\<open>http.Get\<close>, the network.
\<close>

definition FetchChildPages ::
  "(string \<Rightarrow> error + Response) \<Rightarrow> (string \<Rightarrow> string option list) \<Rightarrow> Page \<Rightarrow>
   ((Page list \<times> error option) \<times> string list) option" where
  "FetchChildPages get anchors page =
     (case get (Url page) of
        Inl e \<Rightarrow> Some (([], Some e), [''failed to get URL '' @ Url page @ '': '' @ Error e])
      | Inr resp \<Rightarrow>
          if \<not> HasPrefix (ContentType resp) ''text/html'' then Some (([], None), [])
          else
            (case parseHtml anchors resp of
               (doc, body, Some e) \<Rightarrow> Some (([], Some e), [''failed to parse HTML: '' @ Error e])
             | (None, body, None) \<Rightarrow> None
             | (Some doc, body, None) \<Rightarrow>
                 (case eachAnchor page body doc [] [] of
                    None \<Rightarrow> None
                  | Some childPages \<Rightarrow> Some ((childPages, None), []))))"

text \<open>
  A site of one page: the document at \<^verbatim>\<open>http://example.edu\<close> has one anchor, to \<^verbatim>\<open>/a/\<close>.
\<close>

definition homeDocument :: string where
  "homeDocument = ''<html><body><a href=/a/>a</a></body></html>''"

definition exampleSite :: "string \<Rightarrow> error + Response" where
  "exampleSite url =
     (if url = ''http://example.edu''
      then Inr \<lparr>ContentType = ''text/html; charset=utf-8'',
                RespBody = \<lparr>pending = homeDocument, failure = None\<rparr>\<rparr>
      else Inl (Err ''no such host''))"

definition exampleAnchors :: "string \<Rightarrow> string option list" where
  "exampleAnchors text = (if text = homeDocument then [Some ''/a/''] else [])"

text \<open>
  What can be said of a child page: it was built from some href of the page, it has the
  page's depth less one, and its body is \<open>body\<close>.
\<close>

definition builtFrom :: "Page \<Rightarrow> string \<Rightarrow> Page \<Rightarrow> bool" where
  "builtFrom page body child =
     (Body child = body \<and> Depth child = Depth page - 1 \<and>
      (\<exists>href absoluteUrl.
         ParseRelativeUrl (Url page) href = Some absoluteUrl \<and>
         Url child = TrimRight (URL_String absoluteUrl) CHR ''/''))"

section \<open>Properties of the edge protocol\<close>

lemma DeserializePredicate_zero:
  "DeserializePredicate (Json (JObject [(''edges'', JArray [JObject [(''matching'', JNumber 0)]])]))
     = (False, None)"
  by (simp add: DeserializePredicate_def mapIndex_def fieldNamed_def saveError_def word_sless_alt)

text \<open>Every attempt opens one transaction, and the loop runs at most \<open>attempts\<close> times.\<close>

lemma CheckOrCreatePredicate_loop_opened:
  "opened (snd (CheckOrCreatePredicate_loop (st :: 'a Store_scheme) p c a ex err))
     \<le> opened st + nat a"
proof (induction "nat a" arbitrary: st a ex err)
  case 0
  then show ?case by (subst CheckOrCreatePredicate_loop.simps) auto
next
  case (Suc n)
  have IH: "opened (snd (CheckOrCreatePredicate_loop st' p c (a - 1) ex' err')) \<le> opened st' + n"
    for st' :: "'a Store_scheme" and ex' err'
  proof -
    have "n = nat (a - 1)" using Suc.hyps(2) by linarith
    from Suc.hyps(1) [OF this, of st' ex' err'] this show ?thesis by simp
  qed
  have n: "nat a = Suc n" using Suc.hyps(2) by simp
  show ?case
  proof (cases "\<not> ex \<and> a > 0")
    case False
    then show ?thesis by (subst CheckOrCreatePredicate_loop.simps) auto
  next
    case True
    obtain ex' e' st2 where
      cp: "CheckPredicate (snd (NewTxn st)) (fst (NewTxn st)) p c = ((ex', e'), st2)"
      by (metis surj_pair)
    have o2: "opened st2 = opened st + 1"
      using cp
      by (auto simp: NewTxn_def CheckPredicate_def QueryWithVars_def split: sum.splits prod.splits)
    have rec: "opened (snd (CheckOrCreatePredicate_loop st' p c (a - 1) ex'' err'))
                 \<le> Suc (opened st + n)"
      if "opened st' = opened st2" for st' :: "'a Store_scheme" and ex'' err'
      using IH [of st' ex'' err'] that o2 n by simp
    show ?thesis
      using True cp o2 n
      by (subst CheckOrCreatePredicate_loop.simps)
         (auto simp: Let_def MutateEdge_def Mutate_def Commit_def Discard_def rec
            split: prod.splits sum.splits option.splits)
  qed
qed

lemma CheckOrCreatePredicate_attempts:
  "opened (snd (CheckOrCreatePredicate st p c)) \<le> opened st + 10"
  using CheckOrCreatePredicate_loop_opened [of st p c 10 False None]
  by (simp add: CheckOrCreatePredicate_def)

text \<open>
  An attempt whose existence check reports the edge ends the call with success; the
  attempt issues its query and nothing else.
\<close>

lemma CheckOrCreatePredicate_loop_exists:
  assumes "0 < a"
    and "queryResp (script st (opened st)) = Inr resp"
    and "DeserializePredicate resp = (True, None)"
  shows "CheckOrCreatePredicate_loop st p c a False err =
    (None, st\<lparr>opened := opened st + 1,
               issued := issued st @ [EvNewTxn (opened st), EvQuery (opened st) (EdgeCount p c)]\<rparr>)"
  apply (subst CheckOrCreatePredicate_loop.simps)
  apply (simp add: assms NewTxn_def CheckPredicate_def QueryWithVars_def)
  apply (subst CheckOrCreatePredicate_loop.simps)
  apply simp
  done

text \<open>Against \<open>conflicting_commits\<close> every attempt mutates, commits in vain and goes on.\<close>

lemma CheckOrCreatePredicate_loop_conflicting:
  "script st = conflicting_commits \<Longrightarrow>
   CheckOrCreatePredicate_loop st p c (int n) False err =
     ((if n = 0 then err else None),
      st\<lparr>opened := opened st + n,
         issued := issued st @ concat (map (attempt_events p c) [opened st ..< opened st + n])\<rparr>)"
proof (induction n arbitrary: st err)
  case 0
  show ?case by (subst CheckOrCreatePredicate_loop.simps) simp
next
  case (Suc n)
  let ?st' = "st\<lparr>opened := opened st + 1, issued := issued st @ attempt_events p c (opened st)\<rparr>"
  have step: "CheckOrCreatePredicate_loop st p c (int (Suc n)) False err =
              CheckOrCreatePredicate_loop ?st' p c (int n) False None"
    by (subst CheckOrCreatePredicate_loop.simps)
       (simp add: Suc.prems NewTxn_def CheckPredicate_def QueryWithVars_def MutateEdge_def Mutate_def
          Commit_def Discard_def DeserializePredicate_zero conflicting_commits_def
          attempt_events_def)
  have "script ?st' = conflicting_commits" using Suc.prems by simp
  from Suc.IH [OF this] show ?case
    unfolding step by (simp add: upt_rec [of "opened st"])
qed

text \<open>
  Claim C4. \<^verbatim>\<open>CheckOrCreatePredicate\<close> makes at most 10 attempts and stops with success at
  an attempt that sees the edge (the two lemmas above). The claim's last part fails: when
  all 10 attempts are used up and each one's commit was rejected, the call returns no
  error at all, since the value of \<^verbatim>\<open>txn.Commit\<close> is never read. Here the ten commits of
  the ten attempts all fail with a transaction conflict, no edge is ever stored, and the
  result is \<^verbatim>\<open>nil\<close>.
\<close>

theorem CheckOrCreatePredicate_drops_commit_error:
  "CheckOrCreatePredicate \<lparr>script = conflicting_commits, opened = 0, issued = []\<rparr> ''0x1'' ''0x2'' =
     (None, \<lparr>script = conflicting_commits, opened = 10,
             issued = concat (map (attempt_events ''0x1'' ''0x2'') [0..<10])\<rparr>)"
  using CheckOrCreatePredicate_loop_conflicting
    [of "\<lparr>script = conflicting_commits, opened = 0, issued = []\<rparr>" "''0x1''" "''0x2''" 10 None]
  by (simp add: CheckOrCreatePredicate_def)

section \<open>Properties of the graph codec\<close>

subsection \<open>The order of arrival\<close>

lemma mset_insertAt: "mset (insertAt n x xs) = add_mset x (mset xs)"
proof -
  have "mset (take n xs) + mset (drop n xs) = mset xs"
    by (metis append_take_drop_id mset_append)
  then show ?thesis by (simp add: insertAt_def)
qed

text \<open>Whatever the schedule, the children that arrive are the children that were sent.\<close>

lemma mset_arrive: "mset (arrive pos xs) = mset xs"
  by (induction xs) (simp_all add: mset_insertAt)

lemma arrive_two: "arrive pos [x, y] = [x, y] \<or> arrive pos [x, y] = [y, x]"
  by (cases "pos 1") (simp_all add: insertAt_def)

lemma arrive_cong:
  "(\<And>k. k < length xs \<Longrightarrow> pos k = pos' k) \<Longrightarrow> arrive pos xs = arrive pos' xs"
  by (induction xs) simp_all

text \<open>And every order of arrival is the result of some schedule.\<close>

lemma arrive_any: "mset ys = mset xs \<Longrightarrow> \<exists>pos. arrive pos xs = ys"
proof (induction xs arbitrary: ys)
  case Nil
  then show ?case by simp
next
  case (Cons x xs)
  then have "x \<in> set ys" by (metis list.set_intros(1) mset_eq_setD)
  then obtain as bs where ys: "ys = as @ x # bs" by (meson split_list)
  with Cons.prems have "mset (as @ bs) = mset xs" by simp
  from Cons.IH [OF this] obtain pos where pos: "arrive pos xs = as @ bs" by blast
  let ?pos = "pos(length xs := length as)"
  have "arrive ?pos xs = arrive pos xs" by (rule arrive_cong) simp
  with pos have "arrive ?pos (x # xs) = ys" by (simp add: insertAt_def ys)
  then show ?case by blast
qed

subsection \<open>A root, two children, one grandchild\<close>

lemma ConvertToPage_shape:
  "ConvertToPage sched h None
     (JsonPage ru rl rt
        [Some (JsonPage au al at' [Some (JsonPage gu gl gt [] gs)] as),
         Some (JsonPage bu bl bt [] bs)] rs)
   = Some (length h, h @
      [\<lparr>Uid = ru, Url = rl, Children = arrive (sched (length h)) [length h + 1, length h + 3],
         Parent = None, Depth = 0, Timestamp = rt, Body = []\<rparr>,
       \<lparr>Uid = au, Url = al, Children = [length h + 2], Parent = Some (length h), Depth = 0,
         Timestamp = at', Body = []\<rparr>,
       \<lparr>Uid = gu, Url = gl, Children = [], Parent = Some (length h + 1), Depth = 0,
         Timestamp = gt, Body = []\<rparr>,
       \<lparr>Uid = bu, Url = bl, Children = [], Parent = Some (length h), Depth = 0,
         Timestamp = bt, Body = []\<rparr>])"
  by (simp add: nth_append list_update_append insertAt_def eval_nat_numeral)

lemma descend_Nil [simp]: "descend h n [] = []"
  by (cases n) simp_all

lemma generations_shape:
  assumes "h' = h @ [r, a, g, b]"
    and "Children r = [length h + 1, length h + 3] \<or> Children r = [length h + 3, length h + 1]"
    and "Children a = [length h + 2]" and "Children g = []" and "Children b = []"
  shows "generations h' (length h) = [[length h], Children r, [length h + 2]]"
proof -
  have len: "length h' = Suc (Suc (Suc (Suc (length h))))" by (simp add: assms(1))
  have n0: "h' ! length h = r" and n1: "h' ! Suc (length h) = a"
    and n2: "h' ! Suc (Suc (length h)) = g" and n3: "h' ! Suc (Suc (Suc (length h))) = b"
    by (simp_all add: assms(1) nth_append)
  from assms(2) show ?thesis
  proof
    assume k: "Children r = [length h + 1, length h + 3]"
    show ?thesis
      unfolding generations_def len
      by (simp add: n0 n1 n2 n3 k assms(3,4,5) eval_nat_numeral)
  next
    assume k: "Children r = [length h + 3, length h + 1]"
    show ?thesis
      unfolding generations_def len
      by (simp add: n0 n1 n2 n3 k assms(3,4,5) eval_nat_numeral)
  qed
qed

text \<open>
  Claim C5, amended. For every content of the four nodes, every schedule of the
  goroutines and every heap the conversion starts from: \<^verbatim>\<open>ConvertToPage\<close> applied to a root
  with two children, the first of which has one child, allocates four pages (the root and
  three descendants, not three pages in all), which form a tree of depth 2; the root's
  child collection holds each of the two children exactly once, in some order; the first
  child's collection holds the grandchild; every \<^verbatim>\<open>Parent\<close> points to the page that was
  rebuilt from the parent node; and every page carries the uid, url and timestamp of its
  node. What lies in the arrays behind the child slices plays no part. The pages that
  existed before are untouched.
\<close>

theorem ConvertToPage_root_two_children_one_grandchild:
  "\<exists>h'. ConvertToPage sched h None
       (JsonPage ru rl rt
          [Some (JsonPage au al at' [Some (JsonPage gu gl gt [] gs)] as),
           Some (JsonPage bu bl bt [] bs)] rs)
       = Some (length h, h')
     \<and> length h' = length h + 4
     \<and> treeSize h' (length h) = 4
     \<and> treeDepth h' (length h) = 2
     \<and> mset (Children (h' ! length h)) = {#length h + 1, length h + 3#}
     \<and> Children (h' ! (length h + 1)) = [length h + 2]
     \<and> Children (h' ! (length h + 2)) = []
     \<and> Children (h' ! (length h + 3)) = []
     \<and> Parent (h' ! length h) = None
     \<and> Parent (h' ! (length h + 1)) = Some (length h)
     \<and> Parent (h' ! (length h + 3)) = Some (length h)
     \<and> Parent (h' ! (length h + 2)) = Some (length h + 1)
     \<and> map (\<lambda>p. (Uid p, Url p, Timestamp p)) (drop (length h) h') =
         [(ru, rl, rt), (au, al, at'), (gu, gl, gt), (bu, bl, bt)]
     \<and> take (length h) h' = h"
proof -
  let ?r = "\<lparr>Uid = ru, Url = rl,
              Children = arrive (sched (length h)) [length h + 1, length h + 3],
              Parent = None, Depth = 0, Timestamp = rt, Body = []\<rparr>"
  let ?a = "\<lparr>Uid = au, Url = al, Children = [length h + 2], Parent = Some (length h),
              Depth = 0, Timestamp = at', Body = []\<rparr>"
  let ?g = "\<lparr>Uid = gu, Url = gl, Children = [], Parent = Some (length h + 1), Depth = 0,
              Timestamp = gt, Body = []\<rparr>"
  let ?b = "\<lparr>Uid = bu, Url = bl, Children = [], Parent = Some (length h), Depth = 0,
              Timestamp = bt, Body = []\<rparr>"
  let ?h' = "h @ [?r, ?a, ?g, ?b]"
  have kids: "Children ?r = [length h + 1, length h + 3]
            \<or> Children ?r = [length h + 3, length h + 1]"
    using arrive_two [of "sched (length h)" "length h + 1" "length h + 3"] by simp
  have g: "generations ?h' (length h) = [[length h], Children ?r, [length h + 2]]"
    by (rule generations_shape [OF refl kids]) simp_all
  have len: "length (Children ?r) = 2" using kids by auto
  have size: "treeSize ?h' (length h) = 4" unfolding treeSize_def g using len by simp
  have depth: "treeDepth ?h' (length h) = 2" unfolding treeDepth_def g by simp
  have ms: "mset (Children (?h' ! length h)) = {#length h + 1, length h + 3#}"
    by (simp add: mset_arrive del: arrive.simps)
  have c1: "Children (?h' ! (length h + 1)) = [length h + 2]" by (simp add: nth_append)
  have c2: "Children (?h' ! (length h + 2)) = []" by (simp add: nth_append)
  have c3: "Children (?h' ! (length h + 3)) = []" by (simp add: nth_append eval_nat_numeral)
  have p0: "Parent (?h' ! length h) = None" by (simp add: nth_append)
  have p1: "Parent (?h' ! (length h + 1)) = Some (length h)" by (simp add: nth_append)
  have p3: "Parent (?h' ! (length h + 3)) = Some (length h)"
    by (simp add: nth_append eval_nat_numeral)
  have p2: "Parent (?h' ! (length h + 2)) = Some (length h + 1)" by (simp add: nth_append)
  have fs: "map (\<lambda>p. (Uid p, Url p, Timestamp p)) (drop (length h) ?h') =
         [(ru, rl, rt), (au, al, at'), (gu, gl, gt), (bu, bl, bt)]" by simp
  have tk: "take (length h) ?h' = h" by simp
  have ln: "length ?h' = length h + 4" by simp
  from ConvertToPage_shape [of sched h ru rl rt au al at' gu gl gt gs as bu bl bt bs rs]
    ln size depth ms c1 c2 c3 p0 p1 p3 p2 fs tk
  show ?thesis by - (rule exI [of _ ?h'], (rule conjI, assumption)+, assumption)
qed

text \<open>
  Claim C5 as stated asks for exactly 3 nodes in all. The tree rebuilt from \<open>flattened\<close>
  has 4.
\<close>

theorem ConvertToPage_flattened_has_four_pages:
  "reconstructedSize (ConvertToPage inOrder [] None flattened) = 4
   \<and> reconstructedSize (ConvertToPage inOrder [] None flattened) \<noteq> 3"
  by code_simp

subsection \<open>Encoding and decoding one node\<close>

lemma fieldNamed_tags [simp]:
  "fieldNamed ''uid'' ''url'' = False"
  "fieldNamed ''uid'' ''timestamp'' = False"
  "fieldNamed ''url'' ''timestamp'' = False"
  "fieldNamed ''uid'' ''uid''"
  "fieldNamed ''url'' ''url''"
  "fieldNamed ''timestamp'' ''timestamp''"
  by (simp_all add: fieldNamed_def caseMask_def)

lemma decodeInt64_sint: "decodeInt64 (JNumber (sint (w :: 64 word))) old = (w, None)"
proof -
  have "- (2 ^ 63) \<le> sint w" "sint w < 2 ^ 63"
    using sint_ge [of w] sint_lt [of w] by simp_all
  then show ?thesis by simp
qed

lemma decode_encoded_node:
  "decodeJsonPage (MarshalJsonPage (ConvertToJsonPage p)) zeroJsonPage None =
     (JsonPage [] (coerceUTF8 (Url p)) (Timestamp p) [] [], None)"
  by (cases "Url p")
     (auto simp: ConvertToJsonPage_def zeroJsonPage_def saveError_def decodeInt64_sint
        simp del: decodeInt64.simps coerceUTF8.simps(2))

lemma DeserializePage_encoded_node:
  "DeserializePage sched h (singleNodeResponse (fst (SerializePage p))) =
     Some ((Some (length h), None),
           h @ [\<lparr>Uid = [], Url = coerceUTF8 (Url p), Children = [], Parent = None, Depth = 0,
                  Timestamp = Timestamp p, Body = []\<rparr>])"
  by (simp add: DeserializePage_def singleNodeResponse_def SerializePage_def mapIndex_def
        decode_encoded_node del: MarshalJsonPage.simps decodeJsonPage.simps)

text \<open>The encoder changes a string only where it is not valid UTF-8.\<close>

lemma coerceUTF8_valid: "ValidString s \<Longrightarrow> coerceUTF8 s = s"
  by (induction s rule: ValidString.induct)
     (auto simp del: runeLen.simps split: nat.splits)

lemma coerceUTF8_invalid: "coerceUTF8 [CHR 0xFF] = [CHR 0xEF, CHR 0xBF, CHR 0xBD]"
  by (simp add: inRange_def)

text \<open>
  Claim C6, amended. For every page \<open>p\<close>, every schedule and every heap: decoding the
  response that holds exactly the encoded node of \<open>p\<close> gives, without error, a new page
  whose timestamp is that of \<open>p\<close>, whose url is the url of \<open>p\<close> as the encoder writes it
  (coerced to valid UTF-8, hence the url of \<open>p\<close> itself when that is valid UTF-8, by
  \<open>coerceUTF8_valid\<close>), whose child collection is empty, and whose uid is empty: the
  encoded node carries no uid, so the uid of \<open>p\<close> does not come back.
\<close>

theorem SerializePage_DeserializePage_roundtrip:
  "DeserializePage sched h (singleNodeResponse (fst (SerializePage p))) =
     Some ((Some (length h), None),
           h @ [\<lparr>Uid = [], Url = coerceUTF8 (Url p), Children = [], Parent = None, Depth = 0,
                  Timestamp = Timestamp p, Body = []\<rparr>])"
  by (rule DeserializePage_encoded_node)

text \<open>
  Claim C6 as stated asks for the uid of \<open>p\<close>. The page decoded from the encoded node of
  \<open>persistedPage\<close> has the empty uid, not \<open>0x1\<close>.
\<close>

theorem roundtrip_loses_uid:
  "DeserializePage inOrder [] (singleNodeResponse (fst (SerializePage persistedPage))) =
     Some ((Some 0, None), [persistedPage\<lparr>Uid := []\<rparr>])
   \<and> Uid (persistedPage\<lparr>Uid := []\<rparr>) \<noteq> Uid persistedPage"
  by (simp add: DeserializePage_encoded_node persistedPage_def inRange_def)

text \<open>
  Claim C10. Every member of the encoded node is left out when its field is empty: the
  encoding of a page has a \<^verbatim>\<open>timestamp\<close> member exactly when the timestamp is not 0 and a
  \<^verbatim>\<open>url\<close> member exactly when the url is not empty (and never a \<^verbatim>\<open>uid\<close> or \<^verbatim>\<open>links\<close>
  member); so a page with timestamp 0 is encoded exactly like a node that has no timestamp,
  and decoding that encoding gives the timestamp 0 again.
\<close>

theorem SerializePage_omitempty:
  "(''timestamp'' \<in> set (memberNames (fst (SerializePage p)))) = (Timestamp p \<noteq> 0)
   \<and> (''url'' \<in> set (memberNames (fst (SerializePage p)))) = (Url p \<noteq> [])
   \<and> ''uid'' \<notin> set (memberNames (fst (SerializePage p)))
   \<and> ''links'' \<notin> set (memberNames (fst (SerializePage p)))
   \<and> fst (SerializePage (p\<lparr>Timestamp := 0\<rparr>)) =
       Json (JObject (if Url p = [] then [] else [(''url'', JString (coerceUTF8 (Url p)))]))
   \<and> DeserializePage sched h (singleNodeResponse (fst (SerializePage (p\<lparr>Timestamp := 0\<rparr>)))) =
       Some ((Some (length h), None),
             h @ [\<lparr>Uid = [], Url = coerceUTF8 (Url p), Children = [], Parent = None, Depth = 0,
                    Timestamp = 0, Body = []\<rparr>])"
proof -
  have names: "memberNames (fst (SerializePage p)) =
      (if Url p = [] then [] else [''url'']) @ (if Timestamp p = 0 then [] else [''timestamp''])"
    by (simp add: memberNames_def SerializePage_def ConvertToJsonPage_def)
  have enc: "fst (SerializePage (p\<lparr>Timestamp := 0\<rparr>)) =
       Json (JObject (if Url p = [] then [] else [(''url'', JString (coerceUTF8 (Url p)))]))"
    by (simp add: SerializePage_def ConvertToJsonPage_def)
  show ?thesis
    unfolding names enc [symmetric]
    using DeserializePage_encoded_node [of sched h "p\<lparr>Timestamp := 0\<rparr>"]
    by simp
qed

section \<open>Properties of the node protocol\<close>

lemma DeserializePage_noNode: "DeserializePage sched h noNode = Some ((None, None), h)"
  by (simp add: DeserializePage_def noNode_def mapIndex_def)

lemma DeserializePage_nodeWithUid:
  "DeserializePage sched h (nodeWithUid u) =
     Some ((Some (length h), None),
           h @ [\<lparr>Uid = u, Url = [], Children = [], Parent = None, Depth = 0, Timestamp = 0,
                  Body = []\<rparr>])"
  by (simp add: DeserializePage_def nodeWithUid_def mapIndex_def zeroJsonPage_def saveError_def
        fieldNamed_def)

lemma DeserializePredicate_noEdge: "DeserializePredicate noEdge = (False, None)"
  by (simp add: noEdge_def DeserializePredicate_def mapIndex_def fieldNamed_def saveError_def
        word_sless_alt)

text \<open>
  Against \<open>failingCommits\<close> a pass through the body finds no node, sends the mutation,
  fails to commit and reaches the end of the body with an empty uid; the error of the
  commit is in \<^verbatim>\<open>err\<close>, where nothing reads it before the next pass overwrites it.
\<close>

lemma FindOrCreateNode_body_failingCommits:
  "script w = failingCommits \<Longrightarrow>
   \<exists>w'. FindOrCreateNode_body sched w a [] = Some (Next ([], Some Unavailable), w')
        \<and> script w' = failingCommits"
  by (simp add: FindOrCreateNode_body_def NewTxn_def FindNode_def QueryWithVars_def
        failingCommits_def DeserializePage_noNode SerializePage_def MutateJson_def Mutate_def
        FindOrCreateNode_commit_def Commit_def Discard_def Let_def assignedUid_def)

lemma FindOrCreateNode_loop_failingCommits:
  assumes "FindOrCreateNode_loop sched w a uid err = Some y"
  shows "uid = [] \<longrightarrow> script w = failingCommits \<longrightarrow> False"
proof (rule FindOrCreateNode_loop.raw_induct
    [where P = "\<lambda>sched w a uid err y. uid = [] \<longrightarrow> script w = failingCommits \<longrightarrow> False",
     OF _ assms])
  fix f :: "(addr \<Rightarrow> nat \<Rightarrow> nat) \<Rightarrow> World \<Rightarrow> addr \<Rightarrow> string \<Rightarrow> error option \<Rightarrow>
            ((string \<times> error option) \<times> World) option"
  fix sched w a uid err y
  assume IH: "\<And>s w a uid err y. f s w a uid err = Some y \<Longrightarrow>
                uid = [] \<longrightarrow> script w = failingCommits \<longrightarrow> False"
  assume step: "(if uid = [] then
        (case FindOrCreateNode_body sched w a uid of
           None \<Rightarrow> None
         | Some (Return r, w') \<Rightarrow> Some (r, w')
         | Some (Next (uid', err'), w') \<Rightarrow> f sched w' a uid' err')
      else Some ((uid, err), w)) = Some y"
  show "uid = [] \<longrightarrow> script w = failingCommits \<longrightarrow> False"
  proof (intro impI)
    assume u: "uid = []" and sc: "script w = failingCommits"
    from FindOrCreateNode_body_failingCommits [OF sc, of sched a] obtain w' where
      b: "FindOrCreateNode_body sched w a [] = Some (Next ([], Some Unavailable), w')"
      and s: "script w' = failingCommits" by blast
    from step have "f sched w' a [] (Some Unavailable) = Some y"
      by (simp add: u b)
    from IH [OF this] s show False by simp
  qed
qed

lemma FindOrCreateNode_never_returns:
  "script w = failingCommits \<Longrightarrow> FindOrCreateNode sched w a = None"
  unfolding FindOrCreateNode_def
  using FindOrCreateNode_loop_failingCommits [of sched w a "[]" None]
  by (cases "FindOrCreateNode_loop sched w a [] None") auto

text \<open>
  A commit error that is no transaction conflict does not end the call either: against
  \<open>failsOnce\<close> the call goes round again and returns the uid it finds then, with no error.
\<close>

lemma FindOrCreateNode_retries_any_commit_error:
  "\<exists>w'. FindOrCreateNode inOrder (freshWorld failsOnce [seedPage]) 0 = Some ((''0x7'', None), w')"
  unfolding FindOrCreateNode_def
  apply (subst FindOrCreateNode_loop.simps)
  apply (simp add: FindOrCreateNode_body_def NewTxn_def FindNode_def QueryWithVars_def
      failsOnce_def failingCommits_def freshWorld_def DeserializePage_noNode SerializePage_def
      MutateJson_def Mutate_def FindOrCreateNode_commit_def Commit_def Discard_def Let_def assignedUid_def)
  apply (subst FindOrCreateNode_loop.simps)
  apply (simp add: FindOrCreateNode_body_def NewTxn_def FindNode_def QueryWithVars_def
      failsOnce_def failingCommits_def freshWorld_def DeserializePage_nodeWithUid
      FindOrCreateNode_commit_def Commit_def Discard_def Let_def assignedUid_def)
  apply (subst FindOrCreateNode_loop.simps)
  apply simp
  done

text \<open>
  Claim C2. The claim asks for a bounded number of retries and for an immediate return on
  a commit error that is not transient. The loop of \<^verbatim>\<open>FindOrCreateNode\<close> has no bound and
  never inspects the commit error: against a store whose every commit fails with
  \<^verbatim>\<open>Unavailable\<close> the call does not return.
\<close>

theorem FindOrCreateNode_unbounded_retry:
  "FindOrCreateNode inOrder (freshWorld failingCommits [seedPage]) 0 = None"
  by (rule FindOrCreateNode_never_returns) (simp add: freshWorld_def)

subsection \<open>Create\<close>

text \<open>
  A node that the first query finds is adopted at once; the transaction has sent no
  mutation, so its commit has nothing to ask the store.
\<close>

lemma FindOrCreateNode_found:
  assumes "queryResp (script w (opened w)) = Inr (nodeWithUid u)"
    and "u \<noteq> []"
  shows "FindOrCreateNode sched w a = Some ((u, None),
     w\<lparr>opened := opened w + 1,
       issued := issued w @
         [EvNewTxn (opened w), EvQuery (opened w) (NodeByUrl (Url (heap w ! a)) 1),
          EvCommit (opened w), EvDiscard (opened w)],
       heap := (heap w @ [\<lparr>Uid = u, Url = [], Children = [], Parent = None, Depth = 0,
                            Timestamp = 0, Body = []\<rparr>])
                 [a := ((heap w @ [\<lparr>Uid = u, Url = [], Children = [], Parent = None, Depth = 0,
                            Timestamp = 0, Body = []\<rparr>]) ! a)\<lparr>Uid := u\<rparr>]\<rparr>)"
  unfolding FindOrCreateNode_def
  apply (subst FindOrCreateNode_loop.simps)
  apply (simp add: FindOrCreateNode_body_def NewTxn_def FindNode_def QueryWithVars_def assms
       DeserializePage_nodeWithUid FindOrCreateNode_commit_def Commit_def Discard_def Let_def)
  apply (subst FindOrCreateNode_loop.simps)
  apply (simp add: assms)
  done

lemma FindOrCreateNode_found_props:
  assumes "queryResp (script w (opened w)) = Inr (nodeWithUid u)"
    and "u \<noteq> []" and "a < length (heap w)"
  shows "\<exists>w'. FindOrCreateNode sched w a = Some ((u, None), w')
           \<and> opened w' = opened w + 1 \<and> script w' = script w
           \<and> length (heap w') = length (heap w) + 1
           \<and> (\<forall>b < length (heap w). Parent (heap w' ! b) = Parent (heap w ! b))"
  unfolding FindOrCreateNode_found [OF assms(1,2)]
  using assms(3) by (auto simp: nth_append nth_list_update)

text \<open>
  When every attempt's mutation is rejected, \<^verbatim>\<open>CheckOrCreatePredicate\<close> gives up with the
  error of the last mutation.
\<close>

lemma CheckOrCreatePredicate_loop_aborted:
  fixes st :: "'a Store_scheme"
  assumes "\<And>n. opened st \<le> n \<Longrightarrow> script st n = abortedEdge"
  shows "fst (CheckOrCreatePredicate_loop st p c (int (Suc k)) False err)
           = Some (Err TransactionAborted)"
  using assms
proof (induction k arbitrary: st err)
  case 0
  have "script st (opened st) = abortedEdge" using 0 by simp
  then show ?case
    by (subst CheckOrCreatePredicate_loop.simps)
       (simp add: NewTxn_def CheckPredicate_def QueryWithVars_def MutateEdge_def Mutate_def
          Commit_def Discard_def DeserializePredicate_noEdge abortedEdge_def)
next
  case (Suc k)
  have s: "script st (opened st) = abortedEdge" using Suc.prems by simp
  let ?st' = "st\<lparr>opened := opened st + 1, issued := issued st @ attempt_events p c (opened st)\<rparr>"
  have step: "CheckOrCreatePredicate_loop st p c (int (Suc (Suc k))) False err =
      CheckOrCreatePredicate_loop ?st' p c (int (Suc k)) False (Some (Err TransactionAborted))"
    by (subst CheckOrCreatePredicate_loop.simps)
       (simp add: s NewTxn_def CheckPredicate_def QueryWithVars_def MutateEdge_def Mutate_def
          Commit_def Discard_def DeserializePredicate_noEdge abortedEdge_def attempt_events_def)
  have "\<And>n. opened ?st' \<le> n \<Longrightarrow> script ?st' n = abortedEdge" using Suc.prems by simp
  from Suc.IH [OF this] show ?case unfolding step .
qed

text \<open>
  Whatever the error of the edge step is, transient or not, it is the result of \<^verbatim>\<open>Create\<close>.
\<close>

lemma Create_returns_edge_error:
  assumes "FindOrCreateNode sched w a = Some ((cu, None), w1)"
    and "Parent (heap w1 ! a) = Some parent"
    and "FindOrCreateNode sched w1 parent = Some ((pu, None), w2)"
    and "fst (CheckOrCreatePredicate w2 pu cu) = Some e"
  shows "map_option fst (Create sched w a) = Some (Some e)"
  using assms by (auto simp: Create_def Let_def split: prod.splits option.splits)

text \<open>
  Claim C3. The claim asks \<^verbatim>\<open>Create\<close> to return \<^verbatim>\<open>nil\<close> when the edge step fails with a
  transaction conflict. Here the nodes of the child (page 1) and of its parent (page 0)
  are found, all ten attempts to store the edge are rejected with
  \<^verbatim>\<open>Transaction has been aborted. Please retry.\<close>, and \<^verbatim>\<open>Create\<close> returns that very error:
  the test on the message skips one \<^verbatim>\<open>return\<close> only to reach the next, and \<^verbatim>\<open>err\<close> is never
  reset.
\<close>

theorem Create_returns_transient_edge_error:
  "map_option fst (Create inOrder (freshWorld abortedEdges family) 1)
     = Some (Some (Err TransactionAborted))
   \<and> Contains (Error (Err TransactionAborted)) TransactionAborted"
proof -
  let ?w = "freshWorld abortedEdges family"
  have "queryResp (script ?w (opened ?w)) = Inr (nodeWithUid ''0x2'')"
    by (simp add: freshWorld_def abortedEdges_def)
  from FindOrCreateNode_found_props [OF this, of 1 inOrder]
  obtain w1 where f1: "FindOrCreateNode inOrder ?w 1 = Some ((''0x2'', None), w1)"
    and o1: "opened w1 = 1" and s1: "script w1 = abortedEdges"
    and l1: "length (heap w1) = 3" and p1: "Parent (heap w1 ! 1) = Some 0"
    by (auto simp: freshWorld_def family_def)
  have "queryResp (script w1 (opened w1)) = Inr (nodeWithUid ''0x1'')"
    by (simp add: o1 s1 abortedEdges_def)
  from FindOrCreateNode_found_props [OF this, of 0 inOrder]
  obtain w2 where f2: "FindOrCreateNode inOrder w1 0 = Some ((''0x1'', None), w2)"
    and o2: "opened w2 = 2" and s2: "script w2 = abortedEdges"
    by (auto simp: o1 s1 l1)
  have "\<And>n. opened w2 \<le> n \<Longrightarrow> script w2 n = abortedEdge"
    by (simp add: o2 s2 abortedEdges_def)
  from CheckOrCreatePredicate_loop_aborted [OF this, of "''0x1''" "''0x2''" 9 None]
  have e: "fst (CheckOrCreatePredicate w2 ''0x1'' ''0x2'') = Some (Err TransactionAborted)"
    by (simp add: CheckOrCreatePredicate_def)
  have "Contains (Error (Err TransactionAborted)) TransactionAborted"
    by (simp add: TransactionAborted_def)
  with Create_returns_edge_error [OF f1 p1 f2 e] show ?thesis by simp
qed

section \<open>Properties of the patterns\<close>

text \<open>The matcher decides membership in the language of the expression.\<close>

lemma nullable_iff: "nullable r \<longleftrightarrow> [] \<in> lang r"
  by (induction r) (auto intro: star.star_empty)

lemma star_Cons:
  assumes "x \<in> star A" and "x = c # s"
  shows "\<exists>u v. s = u @ v \<and> c # u \<in> A \<and> v \<in> star A"
  using assms
proof (induction arbitrary: s rule: star.induct)
  case star_empty
  then show ?case by simp
next
  case (star_step u v)
  show ?case
  proof (cases u)
    case Nil
    with star_step show ?thesis by simp
  next
    case (Cons d u')
    with star_step.prems have "d = c" and "s = u' @ v" by simp_all
    with star_step.hyps(1,2) Cons show ?thesis by blast
  qed
qed

lemma star_Cons_iff:
  "c # s \<in> star A \<longleftrightarrow> (\<exists>u v. s = u @ v \<and> c # u \<in> A \<and> v \<in> star A)"
proof
  assume "c # s \<in> star A"
  then show "\<exists>u v. s = u @ v \<and> c # u \<in> A \<and> v \<in> star A" by (rule star_Cons) simp
next
  assume "\<exists>u v. s = u @ v \<and> c # u \<in> A \<and> v \<in> star A"
  then obtain u v where "s = u @ v" "c # u \<in> A" "v \<in> star A" by blast
  then show "c # s \<in> star A" using star.star_step [of "c # u" A v] by simp
qed

lemma deriv_lang: "lang (deriv c r) = {s. c # s \<in> lang r}"
proof (induction r)
  case (Times r1 r2)
  show ?case
    by (auto simp: Times nullable_iff Cons_eq_append_conv)
next
  case (Star r)
  show ?case by (auto simp: Star star_Cons_iff)
qed auto

lemma matches_lang: "matches r s \<longleftrightarrow> s \<in> lang r"
  by (induction s arbitrary: r) (simp_all add: nullable_iff deriv_lang)

lemma lang_Lit: "lang (Lit s) = {s}"
  by (induction s) auto

lemma star_AnyByte: "s \<in> star {uu. \<exists>c. uu = [c]}"
proof (induction s)
  case Nil
  show ?case by (rule star.star_empty)
next
  case (Cons c s)
  have "[c] \<in> {uu. \<exists>c. uu = [c]}" by simp
  from star.star_step [OF this Cons] show ?case by simp
qed

lemma star_singletons: "s \<in> star {[c] | c. P c} \<longleftrightarrow> list_all P s"
proof
  assume "s \<in> star {[c] | c. P c}"
  then show "list_all P s" by (induction rule: star.induct) auto
next
  assume "list_all P s"
  then show "s \<in> star {[c] | c. P c}"
  proof (induction s)
    case Nil
    show ?case by (rule star.star_empty)
  next
    case (Cons c s)
    then have "[c] \<in> {[c] | c. P c}" and "s \<in> star {[c] | c. P c}" by simp_all
    from star.star_step [OF this] show ?case by simp
  qed
qed

lemma lang_letter: "lang letter = {[c] | c. isLetter c}"
  by (auto simp: letter_def isLetter_def)

lemma lang_Plus_letter: "ls \<in> lang (Plus letter) \<longleftrightarrow> ls \<noteq> [] \<and> list_all isLetter ls"
proof -
  have "ls \<in> lang (Plus letter) \<longleftrightarrow>
        (\<exists>u v. ls = u @ v \<and> (\<exists>c. u = [c] \<and> isLetter c) \<and> list_all isLetter v)"
    by (simp add: Plus_def lang_letter star_singletons del: lang.simps(4))
  also have "\<dots> \<longleftrightarrow> ls \<noteq> [] \<and> list_all isLetter ls"
  proof (cases ls)
    case Nil
    then show ?thesis by simp
  next
    case (Cons a list)
    show ?thesis
    proof
      assume "\<exists>u v. ls = u @ v \<and> (\<exists>c. u = [c] \<and> isLetter c) \<and> list_all isLetter v"
      then obtain v c where "ls = [c] @ v" "isLetter c" "list_all isLetter v" by blast
      then show "ls \<noteq> [] \<and> list_all isLetter ls" by simp
    next
      assume "ls \<noteq> [] \<and> list_all isLetter ls"
      then have "ls = [a] @ list" "isLetter a" "list_all isLetter list" using Cons by simp_all
      then show "\<exists>u v. ls = u @ v \<and> (\<exists>c. u = [c] \<and> isLetter c) \<and> list_all isLetter v"
        by blast
    qed
  qed
  finally show ?thesis .
qed

lemma lang_scheme:
  "scheme \<in> lang (Opt (Times (Plus letter) (Byte CHR '':''))) \<longleftrightarrow>
     scheme = [] \<or> (\<exists>ls. ls \<noteq> [] \<and> list_all isLetter ls \<and> scheme = ls @ '':'')"
proof -
  have "scheme \<in> lang (Opt (Times (Plus letter) (Byte CHR '':''))) \<longleftrightarrow>
        scheme = [] \<or> (\<exists>ls. ls \<in> lang (Plus letter) \<and> scheme = ls @ '':'')"
    unfolding Opt_def by (simp del: lang.simps(8)) blast
  then show ?thesis unfolding lang_Plus_letter by simp
qed

lemma lang_prefix:
  "s \<in> lang (Times One (Times r (Star AnyByte))) \<longleftrightarrow> (\<exists>u v. s = u @ v \<and> u \<in> lang r)"
  using star_AnyByte by simp

lemma MatchString_schemePrefix_split:
  "MatchString schemePrefix href \<longleftrightarrow>
     (\<exists>scheme rest. href = scheme @ ''//'' @ rest \<and>
        (scheme = [] \<or> (\<exists>ls. ls \<noteq> [] \<and> list_all isLetter ls \<and> scheme = ls @ '':'')))"
proof -
  let ?S = "Opt (Times (Plus letter) (Byte CHR '':''))"
  have "MatchString schemePrefix href \<longleftrightarrow>
          (\<exists>u v. href = u @ v \<and> u \<in> lang (Times ?S (Lit ''//'')))"
    unfolding MatchString_def matches_lang schemePrefix_def
    by (simp only: pattern.simps if_True if_False lang_prefix)
  also have "\<dots> \<longleftrightarrow> (\<exists>scheme rest. href = scheme @ ''//'' @ rest \<and> scheme \<in> lang ?S)"
  proof
    assume "\<exists>u v. href = u @ v \<and> u \<in> lang (Times ?S (Lit ''//''))"
    then obtain u v where h: "href = u @ v" and u: "u \<in> lang (Times ?S (Lit ''//''))" by blast
    from u obtain scheme where "u = scheme @ ''//''" "scheme \<in> lang ?S"
      by (auto simp only: lang.simps(6) lang_Lit)
    with h have "href = scheme @ ''//'' @ v" by simp
    with \<open>scheme \<in> lang ?S\<close> show "\<exists>scheme rest. href = scheme @ ''//'' @ rest \<and> scheme \<in> lang ?S"
      by blast
  next
    assume "\<exists>scheme rest. href = scheme @ ''//'' @ rest \<and> scheme \<in> lang ?S"
    then obtain scheme rest where h: "href = scheme @ ''//'' @ rest" and s: "scheme \<in> lang ?S"
      by blast
    from s have "scheme @ ''//'' \<in> lang (Times ?S (Lit ''//''))"
      by (auto simp only: lang.simps(6) lang_Lit)
    moreover from h have "href = (scheme @ ''//'') @ rest" by simp
    ultimately show "\<exists>u v. href = u @ v \<and> u \<in> lang (Times ?S (Lit ''//''))" by blast
  qed
  finally show ?thesis unfolding lang_scheme .
qed

text \<open>The same, read off the text from left to right.\<close>

lemma HasPrefix_iff: "HasPrefix s p \<longleftrightarrow> (\<exists>r. s = p @ r)"
  by (induction s p rule: HasPrefix.induct) auto

lemma isLetter_colon: "\<not> isLetter CHR '':''"
  by (simp add: isLetter_def)

lemma letters_split:
  "(\<exists>scheme rest. href = scheme @ ''//'' @ rest \<and>
        (scheme = [] \<or> (\<exists>ls. ls \<noteq> [] \<and> list_all isLetter ls \<and> scheme = ls @ '':'')))
   \<longleftrightarrow> beginsWithOptionalLettersAndSlashes href"
proof
  assume "\<exists>scheme rest. href = scheme @ ''//'' @ rest \<and>
        (scheme = [] \<or> (\<exists>ls. ls \<noteq> [] \<and> list_all isLetter ls \<and> scheme = ls @ '':''))"
  then obtain scheme rest where h: "href = scheme @ ''//'' @ rest"
    and s: "scheme = [] \<or> (\<exists>ls. ls \<noteq> [] \<and> list_all isLetter ls \<and> scheme = ls @ '':'')"
    by blast
  from s show "beginsWithOptionalLettersAndSlashes href"
  proof
    assume "scheme = []"
    with h have "HasPrefix href ''//''" unfolding HasPrefix_iff by simp
    then show ?thesis by (simp add: beginsWithOptionalLettersAndSlashes_def)
  next
    assume "\<exists>ls. ls \<noteq> [] \<and> list_all isLetter ls \<and> scheme = ls @ '':''"
    then obtain ls where ls: "ls \<noteq> []" "list_all isLetter ls" "scheme = ls @ '':''" by blast
    have href: "href = ls @ CHR '':'' # (''//'' @ rest)" using h ls(3) by simp
    have all: "\<And>x. x \<in> set ls \<Longrightarrow> isLetter x" using ls(2) by (simp add: list_all_iff)
    have t: "takeWhile isLetter href = ls"
      unfolding href using all isLetter_colon by (simp add: takeWhile_tail)
    have d: "dropWhile isLetter href = ''://'' @ rest"
      unfolding href using all isLetter_colon by (simp add: dropWhile_append3)
    show ?thesis
      unfolding beginsWithOptionalLettersAndSlashes_def t d HasPrefix_iff using ls(1) by simp
  qed
next
  assume "beginsWithOptionalLettersAndSlashes href"
  then consider "HasPrefix href ''//''"
    | "takeWhile isLetter href \<noteq> []" "HasPrefix (dropWhile isLetter href) ''://''"
    unfolding beginsWithOptionalLettersAndSlashes_def by blast
  then show "\<exists>scheme rest. href = scheme @ ''//'' @ rest \<and>
        (scheme = [] \<or> (\<exists>ls. ls \<noteq> [] \<and> list_all isLetter ls \<and> scheme = ls @ '':''))"
  proof cases
    case 1
    then obtain r where "href = [] @ ''//'' @ r" unfolding HasPrefix_iff by auto
    then show ?thesis by blast
  next
    case 2
    let ?ls = "takeWhile isLetter href"
    from 2(2) obtain r where r: "dropWhile isLetter href = ''://'' @ r"
      unfolding HasPrefix_iff by blast
    have "href = ?ls @ dropWhile isLetter href" by simp
    then have "href = (?ls @ '':'') @ ''//'' @ r" unfolding r by simp
    moreover have "list_all isLetter ?ls" by (simp add: list_all_iff) (meson set_takeWhileD)
    ultimately show ?thesis using 2(1) by blast
  qed
qed

lemma MatchString_schemePrefix:
  "MatchString schemePrefix href = beginsWithOptionalLettersAndSlashes href"
  unfolding MatchString_schemePrefix_split letters_split ..

text \<open>
  Letters and a colon are a scheme, so what the pattern accepts begins with an optional
  scheme followed by \<^verbatim>\<open>//\<close>.
\<close>

lemma letters_are_scheme:
  assumes "beginsWithOptionalLettersAndSlashes href"
  shows "beginsWithOptionalSchemeAndSlashes href"
proof -
  from assms consider "HasPrefix href ''//''"
    | "takeWhile isLetter href \<noteq> []" "HasPrefix (dropWhile isLetter href) ''://''"
    unfolding beginsWithOptionalLettersAndSlashes_def by blast
  then show ?thesis
  proof cases
    case 1
    then show ?thesis by (simp add: beginsWithOptionalSchemeAndSlashes_def)
  next
    case 2
    let ?ls = "takeWhile isLetter href"
    from 2(2) obtain r where r: "dropWhile isLetter href = ''://'' @ r"
      unfolding HasPrefix_iff by blast
    have "href = ?ls @ dropWhile isLetter href" by simp
    then have href: "href = ?ls @ CHR '':'' # (''//'' @ r)" unfolding r by simp
    have all: "\<And>x. x \<in> set ?ls \<Longrightarrow> isLetter x" by (meson set_takeWhileD)
    have nc: "\<And>x. x \<in> set ?ls \<Longrightarrow> x \<noteq> CHR '':''" using all isLetter_colon by blast
    have t: "takeWhile (\<lambda>c. c \<noteq> CHR '':'') href = ?ls"
      by (subst href) (simp add: nc takeWhile_tail)
    have d: "dropWhile (\<lambda>c. c \<noteq> CHR '':'') href = ''://'' @ r"
      by (subst href) (simp add: nc dropWhile_append3)
    have "isScheme ?ls"
      using 2(1) all by (cases ?ls) (auto simp: isScheme_def isSchemeByte_def list_all_iff)
    then show ?thesis
      unfolding beginsWithOptionalSchemeAndSlashes_def t d HasPrefix_iff by simp
  qed
qed

text \<open>
  Claim C8, amended. For every href, \<^verbatim>\<open>IsRelativeUrl\<close> is false exactly when the href
  begins with \<^verbatim>\<open>//\<close> or with one or more ASCII letters followed by \<^verbatim>\<open>://\<close>. Whenever it
  is false the href begins with an optional scheme followed by \<^verbatim>\<open>//\<close>; the converse
  holds only for the schemes that consist of letters. The four examples of the
  specification come out as stated.
\<close>

theorem IsRelativeUrl_false_iff:
  "(IsRelativeUrl h = False) = beginsWithOptionalLettersAndSlashes h
   \<and> (IsRelativeUrl h = False \<longrightarrow> beginsWithOptionalSchemeAndSlashes h)
   \<and> IsRelativeUrl ''http://example.edu'' = False
   \<and> IsRelativeUrl ''//cdn.example.edu/lib.js'' = False
   \<and> IsRelativeUrl ''/myfolder/test.txt'' = True
   \<and> IsRelativeUrl ''test'' = True"
proof -
  have 1: "(IsRelativeUrl h = False) = beginsWithOptionalLettersAndSlashes h"
    by (simp add: IsRelativeUrl_def MatchString_schemePrefix)
  have 0: "IsRelativeUrl h = False \<longrightarrow> beginsWithOptionalSchemeAndSlashes h"
    unfolding 1 using letters_are_scheme by blast
  have 2: "IsRelativeUrl ''http://example.edu'' = False" by code_simp
  have 3: "IsRelativeUrl ''//cdn.example.edu/lib.js'' = False" by code_simp
  have 4: "IsRelativeUrl ''/myfolder/test.txt'' = True" by code_simp
  have 5: "IsRelativeUrl ''test'' = True" by code_simp
  from 1 0 2 3 4 5 show ?thesis by (intro conjI)
qed

text \<open>
  The theorem at \<^verbatim>\<open>HTTP://EXAMPLE.EDU\<close>, for which \<^verbatim>\<open>IsRelativeUrl\<close> is false.
\<close>

theorem IsRelativeUrl_false_iff_witness:
  "IsRelativeUrl ''HTTP://EXAMPLE.EDU'' = False
   \<and> beginsWithOptionalLettersAndSlashes ''HTTP://EXAMPLE.EDU''
   \<and> beginsWithOptionalSchemeAndSlashes ''HTTP://EXAMPLE.EDU''"
proof -
  have f: "IsRelativeUrl ''HTTP://EXAMPLE.EDU'' = False" by code_simp
  from IsRelativeUrl_false_iff [of "''HTTP://EXAMPLE.EDU''"] f show ?thesis by blast
qed

text \<open>
  Claim C8 as stated asks \<^verbatim>\<open>IsRelativeUrl\<close> to be false for every href that begins with a
  scheme followed by \<^verbatim>\<open>//\<close>. The hrefs \<^verbatim>\<open>s3://bucket/k\<close>, \<^verbatim>\<open>git+ssh://host/x\<close>,
  \<^verbatim>\<open>itms-apps://itunes.apple.com/app\<close> and \<^verbatim>\<open>a.b://c\<close> begin with one (\<^verbatim>\<open>url.Parse\<close> finds
  the scheme \<^verbatim>\<open>s3\<close> and the host \<^verbatim>\<open>bucket\<close> in the first), and \<^verbatim>\<open>IsRelativeUrl\<close> is true for
  each: the pattern allows letters only, no digit, \<^verbatim>\<open>+\<close>, \<^verbatim>\<open>-\<close> or \<^verbatim>\<open>.\<close>.
\<close>

theorem IsRelativeUrl_true_although_scheme:
  "beginsWithOptionalSchemeAndSlashes ''s3://bucket/k'' \<and> IsRelativeUrl ''s3://bucket/k'' = True
   \<and> beginsWithOptionalSchemeAndSlashes ''git+ssh://host/x''
   \<and> IsRelativeUrl ''git+ssh://host/x'' = True
   \<and> beginsWithOptionalSchemeAndSlashes ''itms-apps://itunes.apple.com/app''
   \<and> IsRelativeUrl ''itms-apps://itunes.apple.com/app'' = True
   \<and> beginsWithOptionalSchemeAndSlashes ''a.b://c'' \<and> IsRelativeUrl ''a.b://c'' = True
   \<and> (case Parse ''s3://bucket/k'' of Inl e \<Rightarrow> ([], []) | Inr u \<Rightarrow> (Scheme u, Host u))
       = (''s3'', ''bucket'')"
  by code_simp
section \<open>Properties of the URL functions\<close>

subsection \<open>path.Clean on a rooted path\<close>


























subsection \<open>url.Parse\<close>
























































subsection \<open>ParseRelativeUrl\<close>









text \<open>
  Outside the paths of the theorem: \<^verbatim>\<open>path.Clean\<close> runs over the whole of \<open>relativeUrl\<close>,
  before \<^verbatim>\<open>url.Parse\<close> separates the query and the fragment and decodes the escapes. So a
  slash in the fragment or in the query counts as a slash of the path, and an escaped
  \<^verbatim>\<open>..\<close> is not collapsed.
\<close>

lemma ParseRelativeUrl_cleans_beyond_the_path:
  "map_option URL_String (ParseRelativeUrl ''http://example.edu'' ''test#a/../b'')
     = Some ''http://example.edu/b''
   \<and> map_option URL_String (ParseRelativeUrl ''http://example.edu'' ''a?next=/x/../y'')
     = Some ''http://example.edu/a?next=/y''
   \<and> map_option Path (ParseRelativeUrl ''http://example.edu'' ''a/%2E%2E/b'')
     = Some ''/a/../b''"
  by code_simp
section \<open>Properties of FetchChildPages\<close>

text \<open>
  After the HTML parser has read the stream nothing is left for \<^verbatim>\<open>ioutil.ReadAll\<close>: the
  body that \<^verbatim>\<open>parseHtml\<close> returns with a document is empty.
\<close>

lemma parseHtml_body:
  "parseHtml anchors resp = (Some doc, body, None) \<Longrightarrow> body = []"
  by (auto simp: parseHtml_def NewDocumentFromReader_def ReadAll_def split: prod.splits option.splits sum.splits)

lemma eachAnchor_children:
  "eachAnchor page body items seen acc = Some cs \<Longrightarrow> list_all (builtFrom page body) acc
     \<Longrightarrow> list_all (builtFrom page body) cs"
proof (induction page body items seen acc rule: eachAnchor.induct)
  case (1 page body localProcessed childPages)
  then show ?case by simp
next
  case (2 page body items localProcessed childPages)
  then show ?case by simp
next
  case (3 page body href items localProcessed childPages)
  let ?ok = "IsRelativeUrl href \<and> IsRelativeHtml href \<and> href \<noteq> []"
  show ?case
  proof (cases ?ok)
    case False
    have "eachAnchor page body items localProcessed childPages = Some cs"
      using "3.prems"(1) by (simp only: eachAnchor.simps if_not_P [OF False])
    from "3.IH"(3) [OF False this "3.prems"(2)] show ?thesis .
  next
    case True
    show ?thesis
    proof (cases "ParseRelativeUrl (Url page) href")
      case None
      with True "3.prems"(1) show ?thesis by simp
    next
      case (Some abs)
      show ?thesis
      proof (cases "Path abs \<in> set localProcessed")
        case seen: True
        then have "eachAnchor page body items localProcessed childPages = Some cs"
          using "3.prems"(1) True Some by simp
        from "3.IH"(1) [OF True Some seen this "3.prems"(2)] show ?thesis .
      next
        case new: False
        let ?c = "\<lparr>Uid = [], Url = TrimRight (URL_String abs) CHR ''/'', Children = [],
                        Parent = None, Depth = Depth page - 1, Timestamp = 0, Body = body\<rparr>"
        have run: "eachAnchor page body items (Path abs # localProcessed) (childPages @ [?c]) = Some cs"
          using "3.prems"(1) True Some new by simp
        have "builtFrom page body ?c"
          unfolding builtFrom_def using Some by auto
        with "3.prems"(2) have "list_all (builtFrom page body) (childPages @ [?c])" by simp
        from "3.IH"(2) [OF True Some new run this] show ?thesis .
      qed
    qed
  qed
qed

lemma FetchChildPages_children:
  assumes "FetchChildPages get anchors page = Some ((childPages, err), logs)"
  shows "list_all (builtFrom page []) childPages"
proof (cases "get (Url page)")
  case (Inl e)
  with assms show ?thesis by (simp add: FetchChildPages_def)
next
  case (Inr resp)
  show ?thesis
  proof (cases "HasPrefix (ContentType resp) ''text/html''")
    case False
    with assms Inr show ?thesis by (simp add: FetchChildPages_def)
  next
    case True
    obtain doc body e where ph: "parseHtml anchors resp = (doc, body, e)"
      by (metis prod_cases3)
    show ?thesis
    proof (cases e)
      case (Some a)
      with assms Inr True ph show ?thesis
        by (simp add: FetchChildPages_def split: option.splits)
    next
      case None
      show ?thesis
      proof (cases doc)
        case None': None
        with assms Inr True ph None show ?thesis
          by (simp add: FetchChildPages_def split: option.splits)
      next
        case (Some d)
        from parseHtml_body [of anchors resp d body] ph None Some have b: "body = []" by simp
        from assms Inr True ph None Some b
        have "eachAnchor page [] d [] [] = Some childPages"
          by (simp add: FetchChildPages_def split: option.splits)
        from eachAnchor_children [OF this] show ?thesis by simp
      qed
    qed
  qed
qed

text \<open>
  Claim C9. Depth and url of every child are as the claim says (\<open>FetchChildPages_children\<close>:
  every child is built from an href of the page, with the page's depth less one and the
  url trimmed), but the body is not the content that was fetched: it is always empty.
  Here the page at \<^verbatim>\<open>http://example.edu\<close> is fetched, its document is not empty and
  links to \<^verbatim>\<open>/a/\<close>, and the one child has the url \<^verbatim>\<open>http://example.edu/a\<close>, the depth of
  the page less one and an empty body.
\<close>

theorem FetchChildPages_body_is_empty:
  "FetchChildPages exampleSite exampleAnchors seedPage =
     Some (([\<lparr>Uid = [], Url = ''http://example.edu/a'', Children = [], Parent = None,
               Depth = Depth seedPage - 1, Timestamp = 0, Body = []\<rparr>], None), [])
   \<and> homeDocument \<noteq> []"
  by code_simp

end
